theory Spec2Isabelle
  imports Complex_Main "HOL-Library.Finite_Map" "HOL-Library.Log_Nat" "HOL-Library.Sublist"
begin

section \<open>Data model (lib/btc-multisig/interface.ts)\<close>

text \<open>
  The engine is the pair of modules \<^verbatim>\<open>wallet\<close> / \<^verbatim>\<open>transaction\<close> of
  \<^verbatim>\<open>lib/btc-multisig\<close> together with its \<^verbatim>\<open>utils\<close>. JavaScript numbers are
  doubles. Satoshi amounts and byte counts are integers far below \<open>2^53\<close>, where
  double arithmetic is exact: they are \<open>int\<close>. The numbers that the code itself checks
  or scales (\<open>m\<close>, \<open>n\<close>, \<open>feeRate\<close>, the BTC amount of an unspent output) are
  \<open>rat\<close>, the exact value of the double; the one product the engine takes of such a
  number, virtual size times fee rate, is rounded as IEEE-754 rounds it
  (\<open>roundToDouble\<close> below). \<^verbatim>\<open>NaN\<close> and the infinities are outside the model.
  Strings are byte strings. An object used as a dictionary (the signatures of a
  transaction) is a finite map over its own keys; assigning to the property
  \<^verbatim>\<open>__proto__\<close> is modelled as JavaScript performs it (\<open>assignProperty\<close> below).
  Calls are taken one at a time: two calls never overlap.
\<close>

type_synonym HexString = string

datatype TransactionStatus = pending | allsigned | broadcasted | finished | cancelled

text \<open>The string values of the enum, as they appear in stored records and messages.\<close>

fun statusString :: "TransactionStatus \<Rightarrow> string" where
  "statusString pending = ''pending_signatures''"
| "statusString allsigned = ''finished_signatures''"
| "statusString broadcasted = ''broadcasted''"
| "statusString finished = ''confirmed''"
| "statusString cancelled = ''cancelled''"

record Participant =
  publicKey :: HexString
  userId :: string

record Wallet =
  w_walletId :: string
  w_address :: string
  w_redeemScript :: HexString
  w_m :: int
  w_n :: int
  w_name :: string
  w_creationTime :: string
  w_participants :: "Participant list"

text \<open>A funding input as \<^verbatim>\<open>getUTXOsBlockbook\<close> builds it.\<close>

record Utxo =
  hash :: string
  vout :: int
  satoshis :: int

text \<open>
  \<^verbatim>\<open>SecuxPsbt\<close> is an external library. A template is modelled by what the engine
  has put into it: the multisig parameters, the inputs, the outputs and the signatures
  applied, each in call order. Whether the library accepts a call, and everything it
  computes from a template, is a parameter (\<open>Libs\<close> below). A stored transaction holds
  the template itself where the source holds its hex serialisation:
  \<^verbatim>\<open>FromBuffer\<close> after \<^verbatim>\<open>toBuffer\<close> is taken to give the template back.
\<close>

record SecuxPsbt =
  multisig :: "(int \<times> HexString list) option"
  inputs :: "Utxo list"
  outputs :: "(string \<times> int) list"
  partialSigs :: "(nat \<times> HexString \<times> HexString) list"

record Transaction =
  transactionId :: string
  walletId :: string
  recipientAddress :: string
  amount :: int
  status :: TransactionStatus
  psbt :: SecuxPsbt
  inputCount :: nat
  requiredSignatures :: int
  signatures :: "(HexString, HexString list) fmap"
  signaturesReceived :: nat
  signedTransaction :: "HexString option"
  initiatedTime :: string
  txHash :: "HexString option"
  broadcastTime :: "string option"
  tx_note :: "string option"

text \<open>
  Every \<^verbatim>\<open>throw new Error(...)\<close> of the engine is one constructor, carrying the
  values the message interpolates. \<open>CollaboratorFailed\<close> is an exception raised inside
  an external call (network, script library, size table), named by the call.
\<close>

datatype error =
    MustBeIntegers
  | InvalidMofN
  | ExpectedParticipants rat nat
  | DuplicatePublicKeys
  | PublicKeyEmpty
  | TransactionNotFound string
  | NotPendingSignatures TransactionStatus
  | WalletNotFound string
  | AlreadySigned HexString
  | RecipientEmpty
  | AmountNotPositive
  | FeeRateNotPositive
  | NoUsableUTXOs
  | NoConfirmedUTXOs
  | UnsupportedAddress
  | InsufficientFunds int int
  | NotComplete TransactionStatus
  | CancelNotPending TransactionStatus
  | NoTxidReturned
  | HashEncodeFailed
  | CollaboratorFailed string

text \<open>
  The messages of the three errors thrown on a status test (wallet module, line 83;
  transaction module, lines 304 and 363), with the status interpolated as its string.
\<close>

fun stateErrorText :: "error \<Rightarrow> string option" where
  "stateErrorText (NotPendingSignatures st) =
     Some (''Transaction is not in pending_signatures state. Current: '' @ statusString st)"
| "stateErrorText (NotComplete st) =
     Some (''Transaction is not complete. Current status: '' @ statusString st)"
| "stateErrorText (CancelNotPending st) =
     Some (''Transaction can only be cancelled if status is pending_signatures. Current: ''
           @ statusString st)"
| "stateErrorText _ = None"

section \<open>Collaborators\<close>

datatype ScriptType = P2PKH | P2SH | P2WPKH | P2WSH | P2TR | OtherScript

text \<open>The key \<^verbatim>\<open>MULTISIG-P2WSH:${m}-${n}\<close> of the size table's input map.\<close>

datatype InputKind = MULTISIG_P2WSH int int

text \<open>
  The libraries the engine calls, fixed for the lifetime of the program. A result
  \<open>None\<close> is a thrown exception. \<open>getByteCount\<close> is the repository's own
  size table (\<^verbatim>\<open>./getByteCount\<close>), whose source is not available: it is taken as
  a parameter.
\<close>

record Libs =
  sha256hex :: "string \<Rightarrow> HexString"
  base58encode :: "string \<Rightarrow> string"
  initializeMultiSig :: "int \<Rightarrow> HexString list \<Rightarrow> (string \<times> HexString) option"
  inputAccepted :: "SecuxPsbt \<Rightarrow> Utxo \<Rightarrow> bool"
  outputAccepted :: "SecuxPsbt \<Rightarrow> string \<Rightarrow> int \<Rightarrow> bool"
  signatureAccepted :: "SecuxPsbt \<Rightarrow> nat \<Rightarrow> HexString \<Rightarrow> HexString \<Rightarrow> bool"
  finalizeToHex :: "SecuxPsbt \<Rightarrow> HexString option"
  toBuffer :: "SecuxPsbt \<Rightarrow> string"
  getScriptType :: "string \<Rightarrow> ScriptType option"
  getByteCount :: "(InputKind \<times> nat) list \<Rightarrow> (string \<times> nat) list \<Rightarrow> int option"

record Unspent =
  u_txid :: string
  u_vout :: int
  u_amount :: rat

record ScanResult =
  success :: bool
  unspents :: "Unspent list"

text \<open>
  Of the node's reply to \<^verbatim>\<open>getrawtransaction\<close> the engine reads the confirmation
  count only; a reply without the field fails the test \<^verbatim>\<open>> 0\<close> as the count 0 does.
\<close>

record TxDetails =
  confirmations :: int

text \<open>
  What the outside world answers during one engine call: the clock and the Bitcoin
  node. \<open>scantxoutset k\<close> is the answer to the scan request number \<open>k\<close> of the call
  (\<^verbatim>\<open>initiateTransaction\<close> scans twice, and the node may answer differently).
  \<open>None\<close> is a failed request (rejected fetch, HTTP error, RPC error);
  \<open>sendrawtransaction\<close> gives the \<^verbatim>\<open>result\<close> field of the reply, empty when the
  reply has none (its argument is absent when the engine passes an undefined value);
  \<open>getrawtransaction\<close> gives \<open>Some None\<close> for a reply without result.
\<close>

record World =
  now :: string
  scantxoutset :: "nat \<Rightarrow> string \<Rightarrow> ScanResult option"
  sendrawtransaction :: "HexString option \<Rightarrow> string option"
  getrawtransaction :: "HexString \<Rightarrow> TxDetails option option"

text \<open>
  The key/value table. Its keys are \<^verbatim>\<open>wallet:<id>\<close>, \<^verbatim>\<open>tx:<id>\<close> and
  \<^verbatim>\<open>_id:<prefix>\<close>; the three prefixes differ in their first character, so the
  table is three disjoint maps, one per prefix, keyed by what follows the prefix.
  Reading and writing the table itself is taken to succeed.
\<close>

record Store =
  wallets :: "string \<rightharpoonup> Wallet"
  txs :: "string \<rightharpoonup> Transaction"
  ids :: "string \<rightharpoonup> string"

definition emptyStore :: Store where
  "emptyStore = \<lparr>wallets = Map.empty, txs = Map.empty, ids = Map.empty\<rparr>"

section \<open>utils: hashing and identifiers\<close>

definition hexDigit :: "nat \<Rightarrow> char" where
  "hexDigit d = ''0123456789abcdef'' ! d"

text \<open>\<^verbatim>\<open>Buffer.toString("hex")\<close>: two lower-case digits per byte.\<close>

definition toHex :: "string \<Rightarrow> HexString" where
  "toHex bs = concat (map (\<lambda>c. [hexDigit (of_char c div 16), hexDigit (of_char c mod 16)]) bs)"

definition hexValue :: "char \<Rightarrow> nat option" where
  "hexValue c =
     (let k = (of_char c :: nat) in
      if 48 \<le> k \<and> k \<le> 57 then Some (k - 48)
      else if 97 \<le> k \<and> k \<le> 102 then Some (k - 87)
      else if 65 \<le> k \<and> k \<le> 70 then Some (k - 55)
      else None)"

text \<open>\<^verbatim>\<open>Buffer.from(s, "hex")\<close>: decodes pairs of digits up to the first pair that is not hex.\<close>

fun fromHex :: "HexString \<Rightarrow> string" where
  "fromHex (a # b # rest) =
     (case (hexValue a, hexValue b) of
        (Some x, Some y) \<Rightarrow> char_of (16 * x + y) # fromHex rest
      | _ \<Rightarrow> [])"
| "fromHex _ = []"

text \<open>\<^verbatim>\<open>customHash\<close> (utils, lines 398-409): SHA-256 of the hex text of the data, Base58 of the digest.\<close>

definition customHash :: "Libs \<Rightarrow> string \<Rightarrow> error + string" where
  "customHash L data =
     (let hex = toHex data;
          hash = sha256hex L hex;
          hashBuffer = fromHex hash;
          encoded = base58encode L hashBuffer
      in if encoded = [] then Inl HashEncodeFailed else Inr encoded)"

text \<open>
  \<^verbatim>\<open>generateWalletId\<close> (utils, lines 386-396): derives the id from its argument
  \<^verbatim>\<open>prefix\<close> and stores it under \<^verbatim>\<open>_id:<prefix>\<close>. The result is the outcome together with the table afterwards.
\<close>

definition generateWalletId :: "Libs \<Rightarrow> Store \<Rightarrow> string \<Rightarrow> (error + string) \<times> Store" where
  "generateWalletId L s pfx =
     (case customHash L (pfx @ ''#secux_btc_multisig'') of
        Inl e \<Rightarrow> (Inl e, s)
      | Inr wid \<Rightarrow> (Inr wid, s\<lparr>ids := (ids s)(pfx \<mapsto> wid)\<rparr>))"

section \<open>wallet: createMultisigWallet\<close>

text \<open>\<^verbatim>\<open>Array.join("-")\<close>.\<close>

fun joinDash :: "string list \<Rightarrow> string" where
  "joinDash [] = []"
| "joinDash [x] = x"
| "joinDash (x # y # ys) = x @ ''-'' @ joinDash (y # ys)"

definition isInteger :: "rat \<Rightarrow> bool" where
  "isInteger q = (of_int \<lfloor>q\<rfloor> = q)"

record ParticipantInput =
  pi_publicKey :: HexString
  pi_userId :: "string option"

record CreateParams =
  cp_m :: rat
  cp_n :: rat
  cp_name :: "string option"
  cp_participants :: "ParticipantInput list"

text \<open>JavaScript's \<^verbatim>\<open>x || ""\<close> on an optional string.\<close>

definition orEmpty :: "string option \<Rightarrow> string" where
  "orEmpty x = (case x of None \<Rightarrow> [] | Some v \<Rightarrow> v)"

text \<open>
  The four checks of lines 19-32, in order; \<open>None\<close> when all pass.
  \<^verbatim>\<open>new Set(publicKeys).size\<close> is the number of distinct keys.
\<close>

definition createChecks :: "CreateParams \<Rightarrow> error option" where
  "createChecks p =
     (let publicKeys = map pi_publicKey (cp_participants p) in
      if \<not> isInteger (cp_m p) \<or> \<not> isInteger (cp_n p) then Some MustBeIntegers
      else if cp_m p > cp_n p \<or> cp_m p \<le> 0 \<or> cp_n p \<le> 0 then Some InvalidMofN
      else if of_nat (length (cp_participants p)) \<noteq> cp_n p
        then Some (ExpectedParticipants (cp_n p) (length (cp_participants p)))
      else if of_nat (length (remdups publicKeys)) \<noteq> cp_n p then Some DuplicatePublicKeys
      else None)"

text \<open>
  \<^verbatim>\<open>createMultisigWallet\<close> (lines 11-63). The returned object repeats the fields of
  the stored record except the participants; the model returns the record.
\<close>

definition createMultisigWallet :: "Libs \<Rightarrow> World \<Rightarrow> Store \<Rightarrow> CreateParams \<Rightarrow> (error + Wallet) \<times> Store" where
  "createMultisigWallet L W s p =
     (case createChecks p of
        Some e \<Rightarrow> (Inl e, s)
      | None \<Rightarrow>
         (let publicKeys = map pi_publicKey (cp_participants p) in
          case customHash L (joinDash publicKeys) of
            Inl e \<Rightarrow> (Inl e, s)
          | Inr publicKeyHash \<Rightarrow>
             (case generateWalletId L s publicKeyHash of
                (Inl e, s1) \<Rightarrow> (Inl e, s1)
              | (Inr wid, s1) \<Rightarrow>
                 (case initializeMultiSig L \<lfloor>cp_m p\<rfloor> publicKeys of
                    None \<Rightarrow> (Inl (CollaboratorFailed ''initializeMultiSig''), s1)
                  | Some (addr, script) \<Rightarrow>
                     (let walletData = \<lparr>w_walletId = wid, w_address = addr,
                            w_redeemScript = script, w_m = \<lfloor>cp_m p\<rfloor>, w_n = \<lfloor>cp_n p\<rfloor>,
                            w_name = orEmpty (cp_name p), w_creationTime = now W,
                            w_participants = map (\<lambda>q. \<lparr>publicKey = pi_publicKey q,
                               userId = orEmpty (pi_userId q)\<rparr>) (cp_participants p)\<rparr>
                      in (Inr walletData, s1\<lparr>wallets := (wallets s1)(wid \<mapsto> walletData)\<rparr>))))))"

section \<open>Double arithmetic\<close>

text \<open>
  The product of two doubles is the double nearest to the exact product, ties going to
  the even mantissa (IEEE-754 binary64: 53 bits of mantissa, smallest exponent -1074).
  \<open>floorLog2 q\<close> is the exponent \<open>e\<close> with \<open>2^e \<le> q < 2^(e+1)\<close>, for \<open>q > 0\<close>.
  A product beyond the largest double is outside the model.
\<close>

definition pow2 :: "int \<Rightarrow> rat" where
  "pow2 k = (if 0 \<le> k then 2 ^ nat k else 1 / 2 ^ nat (- k))"

definition floorLog2 :: "rat \<Rightarrow> int" where
  "floorLog2 q = (if 1 \<le> q then bitlen \<lfloor>q\<rfloor> - 1 else - bitlen (\<lceil>1 / q\<rceil> - 1))"

definition roundHalfEven :: "rat \<Rightarrow> int" where
  "roundHalfEven x =
     (let f = \<lfloor>x\<rfloor>; r = x - of_int f
      in if r < 1 / 2 then f else if 1 / 2 < r then f + 1 else if even f then f else f + 1)"

definition roundToDouble :: "rat \<Rightarrow> rat" where
  "roundToDouble q =
     (if q = 0 then 0
      else let a = \<bar>q\<bar>; k = max (floorLog2 a - 52) (- 1074)
           in sgn q * of_int (roundHalfEven (a / pow2 k)) * pow2 k)"

section \<open>utils: the Bitcoin node\<close>

text \<open>\<^verbatim>\<open>getUTXOs\<close> (utils, lines 213-255), as scan request number \<open>k\<close> of the call.\<close>

definition getUTXOs :: "World \<Rightarrow> nat \<Rightarrow> string \<Rightarrow> error + Unspent list" where
  "getUTXOs W k addr =
     (case scantxoutset W k addr of
        None \<Rightarrow> Inl (CollaboratorFailed ''scantxoutset'')
      | Some result \<Rightarrow>
          if \<not> success result \<or> unspents result = [] then Inl NoUsableUTXOs
          else Inr (unspents result))"

text \<open>\<^verbatim>\<open>Math.round\<close>: the nearest integer, halves upwards.\<close>

definition mathRound :: "rat \<Rightarrow> int" where
  "mathRound x = \<lfloor>x + 1 / 2\<rfloor>"

text \<open>The double that the literal \<^verbatim>\<open>0.02\<close> denotes.\<close>

definition double_0_02 :: rat where
  "double_0_02 = 5764607523034235 / 288230376151711744"

text \<open>\<^verbatim>\<open>getUTXOsBlockbook\<close> (utils, lines 257-275): outputs above 0.02 BTC, in satoshis.\<close>

definition getUTXOsBlockbook :: "World \<Rightarrow> nat \<Rightarrow> string \<Rightarrow> error + Utxo list" where
  "getUTXOsBlockbook W k addr =
     (case getUTXOs W k addr of
        Inl e \<Rightarrow> Inl e
      | Inr unsp \<Rightarrow>
          Inr (map (\<lambda>u. \<lparr>hash = u_txid u, vout = u_vout u,
                          satoshis = mathRound (roundToDouble (u_amount u * 100000000))\<rparr>)
                   (filter (\<lambda>u. u_amount u > double_0_02) unsp)))"

text \<open>
  \<^verbatim>\<open>utils.broadcastTransaction\<close> (utils, lines 127-154). The engine passes
  \<^verbatim>\<open>transaction.signedTransaction!\<close>, which may be absent.
\<close>

definition utils_broadcastTransaction :: "World \<Rightarrow> HexString option \<Rightarrow> error + string" where
  "utils_broadcastTransaction W signedTx =
     (case sendrawtransaction W signedTx of
        None \<Rightarrow> Inl (CollaboratorFailed ''sendrawtransaction'')
      | Some txid \<Rightarrow> if txid = [] then Inl NoTxidReturned else Inr txid)"

text \<open>
  \<^verbatim>\<open>utils.getTransactionStatus\<close> (utils, lines 156-165): an error of the RPC call is
  logged and the function returns nothing.
\<close>

definition utils_getTransactionStatus :: "World \<Rightarrow> HexString \<Rightarrow> TxDetails option" where
  "utils_getTransactionStatus W h =
     (case getrawtransaction W h of None \<Rightarrow> None | Some txDetails \<Rightarrow> txDetails)"

subsection \<open>estimateVirtualSize\<close>

fun scriptTypeName :: "ScriptType \<Rightarrow> string option" where
  "scriptTypeName P2PKH = Some ''P2PKH''"
| "scriptTypeName P2SH = Some ''P2SH''"
| "scriptTypeName P2WPKH = Some ''P2WPKH''"
| "scriptTypeName P2WSH = Some ''P2WSH''"
| "scriptTypeName P2TR = Some ''P2TR''"
| "scriptTypeName OtherScript = None"

text \<open>
  \<^verbatim>\<open>estimateVirtualSize\<close> (utils, lines 340-384); its scan of the node is request
  number \<open>k\<close> of the call it is part of.
\<close>

definition estimateVirtualSize :: "Libs \<Rightarrow> World \<Rightarrow> nat \<Rightarrow> Store \<Rightarrow> string \<Rightarrow> string \<Rightarrow> error + int" where
  "estimateVirtualSize L W k s wid recipient =
     (case wallets s wid of
        None \<Rightarrow> Inl (WalletNotFound wid)
      | Some walletData \<Rightarrow>
         (case getScriptType L recipient of
            None \<Rightarrow> Inl (CollaboratorFailed ''getScriptType'')
          | Some st \<Rightarrow>
             (case scriptTypeName st of
                None \<Rightarrow> Inl UnsupportedAddress
              | Some scriptType \<Rightarrow>
                 (case getUTXOsBlockbook W k (w_address walletData) of
                    Inl e \<Rightarrow> Inl e
                  | Inr utxos \<Rightarrow>
                     (let inputCnt = length utxos;
                          outs = (if scriptType = ''P2WSH'' then [(''P2WSH'', 2)]
                                  else [(scriptType, 1), (''P2WSH'', 1)])
                      in case getByteCount L
                              [(MULTISIG_P2WSH (w_m walletData) (w_n walletData), inputCnt)] outs of
                           None \<Rightarrow> Inl (CollaboratorFailed ''getByteCount'')
                         | Some vSize \<Rightarrow> Inr vSize)))))"

section \<open>The script library's calls on a template\<close>

definition newPsbt :: SecuxPsbt where
  "newPsbt = \<lparr>multisig = None, inputs = [], outputs = [], partialSigs = []\<rparr>"

definition psbtInitializeMultiSig :: "Libs \<Rightarrow> SecuxPsbt \<Rightarrow> int \<Rightarrow> HexString list \<Rightarrow> SecuxPsbt option" where
  "psbtInitializeMultiSig L p k keys =
     (case initializeMultiSig L k keys of
        None \<Rightarrow> None
      | Some _ \<Rightarrow> Some (p\<lparr>multisig := Some (k, keys)\<rparr>))"

definition addMultiSigInput :: "Libs \<Rightarrow> SecuxPsbt \<Rightarrow> Utxo \<Rightarrow> SecuxPsbt option" where
  "addMultiSigInput L p u =
     (if inputAccepted L p u then Some (p\<lparr>inputs := inputs p @ [u]\<rparr>) else None)"

definition AddOutput :: "Libs \<Rightarrow> SecuxPsbt \<Rightarrow> string \<Rightarrow> int \<Rightarrow> SecuxPsbt option" where
  "AddOutput L p addr sat =
     (if outputAccepted L p addr sat then Some (p\<lparr>outputs := outputs p @ [(addr, sat)]\<rparr>)
      else None)"

definition psbtSubmitSignature :: "Libs \<Rightarrow> SecuxPsbt \<Rightarrow> nat \<Rightarrow> HexString \<Rightarrow> HexString \<Rightarrow> SecuxPsbt option" where
  "psbtSubmitSignature L p i pk sg =
     (if signatureAccepted L p i pk sg
      then Some (p\<lparr>partialSigs := partialSigs p @ [(i, pk, sg)]\<rparr>) else None)"

section \<open>transaction: initiateTransaction\<close>

record InitiateParams =
  ip_recipientAddress :: string
  ip_amount :: int
  ip_feeRate :: "rat option"
  ip_note :: "string option"

text \<open>The loop of lines 222-226; the sum and the count it keeps are \<open>sum_list\<close> and \<open>length\<close>.\<close>

fun addInputs :: "Libs \<Rightarrow> SecuxPsbt \<Rightarrow> Utxo list \<Rightarrow> SecuxPsbt option" where
  "addInputs L p [] = Some p"
| "addInputs L p (u # us) =
     (case addMultiSigInput L p u of None \<Rightarrow> None | Some p' \<Rightarrow> addInputs L p' us)"

text \<open>\<^verbatim>\<open>Math.ceil(vSize * feeRate)\<close> (line 230), with the default fee rate 1.0.\<close>

definition estimatedFeeOf :: "int \<Rightarrow> rat option \<Rightarrow> int" where
  "estimatedFeeOf vSize feeRate =
     \<lceil>roundToDouble (of_int vSize * (case feeRate of None \<Rightarrow> 1 | Some r \<Rightarrow> r))\<rceil>"

text \<open>\<^verbatim>\<open>initiateTransaction\<close> (transaction module, lines 183-273).\<close>

definition initiateTransaction :: "Libs \<Rightarrow> World \<Rightarrow> Store \<Rightarrow> string \<Rightarrow> InitiateParams \<Rightarrow> (error + Transaction) \<times> Store" where
  "initiateTransaction L W s wid p =
     (if ip_recipientAddress p = [] then (Inl RecipientEmpty, s)
      else if ip_amount p \<le> 0 then (Inl AmountNotPositive, s)
      else if (case ip_feeRate p of None \<Rightarrow> False | Some r \<Rightarrow> r \<le> 0)
        then (Inl FeeRateNotPositive, s)
      else
       (case wallets s wid of
          None \<Rightarrow> (Inl (WalletNotFound wid), s)
        | Some walletData \<Rightarrow>
       (case getUTXOsBlockbook W 0 (w_address walletData) of
          Inl e \<Rightarrow> (Inl e, s)
        | Inr utxos \<Rightarrow>
       (if utxos = [] then (Inl NoConfirmedUTXOs, s)
        else
       (case psbtInitializeMultiSig L newPsbt (w_m walletData)
                  (map publicKey (w_participants walletData)) of
          None \<Rightarrow> (Inl (CollaboratorFailed ''initializeMultiSig''), s)
        | Some psbt0 \<Rightarrow>
       (case addInputs L psbt0 utxos of
          None \<Rightarrow> (Inl (CollaboratorFailed ''addMultiSigInput''), s)
        | Some psbt1 \<Rightarrow>
       (let totalInputAmount = sum_list (map satoshis utxos);
            inputCnt = length utxos
        in
       (case estimateVirtualSize L W 1 s wid (ip_recipientAddress p) of
          Inl e \<Rightarrow> (Inl e, s)
        | Inr vSize \<Rightarrow>
       (let estimatedFee = estimatedFeeOf vSize (ip_feeRate p) in
       (if totalInputAmount < ip_amount p + estimatedFee
          then (Inl (InsufficientFunds totalInputAmount (ip_amount p + estimatedFee)), s)
        else
       (case AddOutput L psbt1 (ip_recipientAddress p) (ip_amount p) of
          None \<Rightarrow> (Inl (CollaboratorFailed ''AddOutput''), s)
        | Some psbt2 \<Rightarrow>
       (let changeAmount = totalInputAmount - ip_amount p - estimatedFee in
       (case (if changeAmount > 0 then AddOutput L psbt2 (w_address walletData) changeAmount
              else Some psbt2) of
          None \<Rightarrow> (Inl (CollaboratorFailed ''AddOutput''), s)
        | Some psbt3 \<Rightarrow>
       (case customHash L (toBuffer L psbt3) of
          Inl e \<Rightarrow> (Inl e, s)
        | Inr tid \<Rightarrow>
       (let transaction = \<lparr>transactionId = tid, walletId = wid,
              recipientAddress = ip_recipientAddress p, amount = ip_amount p,
              status = pending, psbt = psbt3, inputCount = inputCnt,
              requiredSignatures = w_m walletData, signatures = fmempty,
              signaturesReceived = 0, signedTransaction = None,
              initiatedTime = now W, txHash = None, broadcastTime = None,
              tx_note = ip_note p\<rparr>
        in (Inr transaction, s\<lparr>txs := (txs s)(tid \<mapsto> transaction)\<rparr>))))))))))))))))"

section \<open>wallet: submitSignature\<close>

text \<open>The loop of lines 102-107: signature \<open>i\<close> of the list goes to input \<open>i\<close>.\<close>

fun applySignatures :: "Libs \<Rightarrow> SecuxPsbt \<Rightarrow> HexString \<Rightarrow> nat \<Rightarrow> HexString list \<Rightarrow> SecuxPsbt option" where
  "applySignatures L p pk i [] = Some p"
| "applySignatures L p pk i (sg # rest) =
     (case psbtSubmitSignature L p i pk sg of
        None \<Rightarrow> None
      | Some p' \<Rightarrow> applySignatures L p' pk (Suc i) rest)"

text \<open>
  The object \<^verbatim>\<open>submitSignature\<close> returns; its field \<^verbatim>\<open>requiredSignatures\<close> is the
  number of signatures still missing.
\<close>

record SubmitResult =
  sr_transactionId :: string
  sr_status :: TransactionStatus
  sr_signaturesReceived :: nat
  sr_requiredSignatures :: int

definition submitResult :: "Transaction \<Rightarrow> SubmitResult" where
  "submitResult t = \<lparr>sr_transactionId = transactionId t, sr_status = status t,
     sr_signaturesReceived = signaturesReceived t,
     sr_requiredSignatures = requiredSignatures t - int (signaturesReceived t)\<rparr>"

text \<open>
  \<^verbatim>\<open>obj[key] = value\<close> on a plain object, for a value that is an array (line 109).
  Every key becomes an own property of the object except \<^verbatim>\<open>__proto__\<close>: that name
  is the prototype accessor of \<^verbatim>\<open>Object.prototype\<close>, the assignment replaces the
  prototype of the object and creates no own property, so that \<^verbatim>\<open>Object.keys\<close> and
  the stored JSON are as before.
\<close>

definition assignProperty :: "(string, 'v) fmap \<Rightarrow> string \<Rightarrow> 'v \<Rightarrow> (string, 'v) fmap" where
  "assignProperty obj key v = (if key = ''__proto__'' then obj else fmupd key v obj)"

text \<open>
  \<^verbatim>\<open>submitSignature\<close> (wallet module, lines 65-129). The stored record always has
  a signatures object, so the default of lines 93-95 is not a case of the model.
\<close>

definition submitSignature :: "Libs \<Rightarrow> Store \<Rightarrow> string \<Rightarrow> HexString \<Rightarrow> HexString list \<Rightarrow> (error + SubmitResult) \<times> Store" where
  "submitSignature L s tid pk sigs =
     (if pk = [] then (Inl PublicKeyEmpty, s)
      else
       (case txs s tid of
          None \<Rightarrow> (Inl (TransactionNotFound tid), s)
        | Some transaction \<Rightarrow>
       (if status transaction \<noteq> pending
          then (Inl (NotPendingSignatures (status transaction)), s)
        else
       (case wallets s (walletId transaction) of
          None \<Rightarrow> (Inl (WalletNotFound (walletId transaction)), s)
        | Some walletData \<Rightarrow>
       (if pk |\<in>| fmdom (signatures transaction) then (Inl (AlreadySigned pk), s)
        else
       (case applySignatures L (psbt transaction) pk 0 sigs of
          None \<Rightarrow> (Inl (CollaboratorFailed ''submitSignature''), s)
        | Some psbt1 \<Rightarrow>
       (let sigs1 = assignProperty (signatures transaction) pk sigs;
            t1 = transaction\<lparr>signatures := sigs1,
                   signaturesReceived := fcard (fmdom sigs1), psbt := psbt1\<rparr>
        in
       (if int (signaturesReceived t1) \<ge> requiredSignatures t1 then
          (case finalizeToHex L psbt1 of
             None \<Rightarrow> (Inl (CollaboratorFailed ''finalizeAllInputs''), s)
           | Some raw \<Rightarrow>
              (let t2 = t1\<lparr>status := allsigned, signedTransaction := Some raw\<rparr>
               in (Inr (submitResult t2), s\<lparr>txs := (txs s)(tid \<mapsto> t2)\<rparr>)))
        else (Inr (submitResult t1), s\<lparr>txs := (txs s)(tid \<mapsto> t1)\<rparr>)))))))))"

section \<open>transaction: broadcast, status, cancel\<close>

record BroadcastResult =
  br_transactionId :: string
  br_status :: TransactionStatus
  br_txHash :: string
  br_broadcastTime :: "string option"
  br_message :: string

text \<open>\<^verbatim>\<open>broadcastTransaction\<close> (transaction module, lines 297-321).\<close>

definition broadcastTransaction :: "World \<Rightarrow> Store \<Rightarrow> string \<Rightarrow> (error + BroadcastResult) \<times> Store" where
  "broadcastTransaction W s tid =
     (case txs s tid of
        None \<Rightarrow> (Inl (TransactionNotFound tid), s)
      | Some transaction \<Rightarrow>
     (if status transaction \<noteq> allsigned then (Inl (NotComplete (status transaction)), s)
      else
     (case utils_broadcastTransaction W (signedTransaction transaction) of
        Inl e \<Rightarrow> (Inl e, s)
      | Inr h \<Rightarrow>
     (let t1 = transaction\<lparr>txHash := Some h, status := broadcasted,
                 broadcastTime := Some (now W)\<rparr>
      in (Inr \<lparr>br_transactionId = transactionId t1, br_status = status t1, br_txHash = h,
                br_broadcastTime = broadcastTime t1,
                br_message = ''Transaction broadcast successfully''\<rparr>,
          s\<lparr>txs := (txs s)(tid \<mapsto> t1)\<rparr>)))))"

record StatusSummary =
  ss_transactionId :: string
  ss_walletId :: string
  ss_status :: TransactionStatus
  ss_initiatedTime :: string
  ss_txHash :: "HexString option"
  ss_broadcastTime :: "string option"
  ss_requiredSignatures :: int
  ss_signaturesReceived :: nat

definition statusSummary :: "Transaction \<Rightarrow> StatusSummary" where
  "statusSummary t = \<lparr>ss_transactionId = transactionId t, ss_walletId = walletId t,
     ss_status = status t, ss_initiatedTime = initiatedTime t, ss_txHash = txHash t,
     ss_broadcastTime = broadcastTime t, ss_requiredSignatures = requiredSignatures t,
     ss_signaturesReceived = signaturesReceived t\<rparr>"

text \<open>The test \<^verbatim>\<open>transaction.txHash\<close> of line 329: present and not the empty string.\<close>

definition truthyHash :: "HexString option \<Rightarrow> HexString option" where
  "truthyHash h = (case h of None \<Rightarrow> None | Some x \<Rightarrow> if x = [] then None else Some x)"

text \<open>
  \<^verbatim>\<open>getTransactionStatus\<close> (transaction module, lines 323-354). The \<^verbatim>\<open>catch\<close> of
  lines 337-341 guards a call that has already swallowed its own errors.
\<close>

definition getTransactionStatus :: "World \<Rightarrow> Store \<Rightarrow> string \<Rightarrow> (error + StatusSummary) \<times> Store" where
  "getTransactionStatus W s tid =
     (case txs s tid of
        None \<Rightarrow> (Inl (TransactionNotFound tid), s)
      | Some transaction \<Rightarrow>
     (if status transaction = broadcasted then
        (case truthyHash (txHash transaction) of
           None \<Rightarrow> (Inr (statusSummary transaction), s)
         | Some h \<Rightarrow>
            (case utils_getTransactionStatus W h of
               None \<Rightarrow> (Inr (statusSummary transaction), s)
             | Some txDetails \<Rightarrow>
                (if confirmations txDetails > 0 then
                   (let t1 = transaction\<lparr>status := finished\<rparr>
                    in (Inr (statusSummary t1), s\<lparr>txs := (txs s)(tid \<mapsto> t1)\<rparr>))
                 else (Inr (statusSummary transaction), s))))
      else (Inr (statusSummary transaction), s)))"

text \<open>\<^verbatim>\<open>cancelTransaction\<close> (transaction module, lines 356-373).\<close>

definition cancelTransaction :: "Store \<Rightarrow> string \<Rightarrow> (error + string \<times> TransactionStatus) \<times> Store" where
  "cancelTransaction s tid =
     (case txs s tid of
        None \<Rightarrow> (Inl (TransactionNotFound tid), s)
      | Some transaction \<Rightarrow>
     (if status transaction \<noteq> pending then (Inl (CancelNotPending (status transaction)), s)
      else
     (let t1 = transaction\<lparr>status := cancelled\<rparr>
      in (Inr (transactionId t1, status t1), s\<lparr>txs := (txs s)(tid \<mapsto> t1)\<rparr>))))"

section \<open>Reachable tables\<close>

text \<open>
  The tables the engine can produce: from the empty table, by any of its six operations
  that write, with any arguments, and whatever the outside world answers during the call.
  A failed call contributes the table it leaves behind. The other functions of the two
  modules (wallet details and balance, unsigned hashes, pending list, history) only read.
\<close>

inductive reachable :: "Libs \<Rightarrow> Store \<Rightarrow> bool" for L :: Libs where
  r_empty: "reachable L emptyStore"
| r_create: "reachable L s \<Longrightarrow> reachable L (snd (createMultisigWallet L W s cp))"
| r_initiate: "reachable L s \<Longrightarrow> reachable L (snd (initiateTransaction L W s wid ip))"
| r_submit: "reachable L s \<Longrightarrow> reachable L (snd (submitSignature L s tid pk sigs))"
| r_broadcast: "reachable L s \<Longrightarrow> reachable L (snd (broadcastTransaction W s tid))"
| r_status: "reachable L s \<Longrightarrow> reachable L (snd (getTransactionStatus W s tid))"
| r_cancel: "reachable L s \<Longrightarrow> reachable L (snd (cancelTransaction s tid))"

section \<open>Notions used to state the properties\<close>

text \<open>The record \<^verbatim>\<open>submitSignature\<close> stores when the library has accepted the signatures.\<close>

definition afterSign :: "Libs \<Rightarrow> Transaction \<Rightarrow> HexString \<Rightarrow> HexString list \<Rightarrow> SecuxPsbt \<Rightarrow> Transaction" where
  "afterSign L t pk sigs p1 =
     (let sigs1 = assignProperty (signatures t) pk sigs;
          t1 = t\<lparr>signatures := sigs1, signaturesReceived := fcard (fmdom sigs1), psbt := p1\<rparr>
      in if int (signaturesReceived t1) \<ge> requiredSignatures t
         then t1\<lparr>status := allsigned, signedTransaction := finalizeToHex L p1\<rparr> else t1)"

text \<open>What holds of every stored transaction, and of every table, that the engine produces.\<close>

definition txInv :: "Transaction \<Rightarrow> bool" where
  "txInv t =
     ((status t = pending \<longrightarrow>
         signaturesReceived t = fcard (fmdom (signatures t)) \<and>
         int (signaturesReceived t) < requiredSignatures t) \<and>
      [] |\<notin>| fmdom (signatures t) \<and>
      ((signedTransaction t \<noteq> None) =
         (status t = allsigned \<or> status t = broadcasted \<or> status t = finished)) \<and>
      ((txHash t \<noteq> None) = (status t = broadcasted \<or> status t = finished)) \<and>
      ((broadcastTime t \<noteq> None) = (status t = broadcasted \<or> status t = finished)) \<and>
      (status t = broadcasted \<or> status t = finished \<longrightarrow> truthyHash (txHash t) \<noteq> None))"

definition storeInv :: "Store \<Rightarrow> bool" where
  "storeInv s =
     ((\<forall>tid t. txs s tid = Some t \<longrightarrow> txInv t \<and> wallets s (walletId t) \<noteq> None) \<and>
      (\<forall>wid w. wallets s wid = Some w \<longrightarrow> 0 < w_m w))"

subsection \<open>The wallet id in the words of the specification\<close>









section \<open>A concrete run\<close>

text \<open>
  Stand-ins for the libraries and the node, small enough to evaluate: every hash is
  \<open>AB\<close>, the script library accepts everything, a transaction is 250 virtual bytes,
  and the wallet's address holds one output of 0.1 BTC (the double that \<^verbatim>\<open>0.1\<close>
  denotes).
\<close>

definition double_0_1 :: rat where
  "double_0_1 = 3602879701896397 / 36028797018963968"

text \<open>The double that \<^verbatim>\<open>1.1\<close> denotes, a fee rate whose products need rounding.\<close>

definition double_1_1 :: rat where
  "double_1_1 = 2476979795053773 / 2251799813685248"

definition demoInitExact :: InitiateParams where
  "demoInitExact = \<lparr>ip_recipientAddress = ''dest'', ip_amount = 9999725,
     ip_feeRate = Some double_1_1, ip_note = None\<rparr>"

definition demoLibs :: Libs where
  "demoLibs = \<lparr>sha256hex = (\<lambda>_. ''4142''), base58encode = (\<lambda>b. b),
     initializeMultiSig = (\<lambda>_ _. Some (''addr'', ''script'')),
     inputAccepted = (\<lambda>_ _. True), outputAccepted = (\<lambda>_ _ _. True),
     signatureAccepted = (\<lambda>_ _ _ _. True), finalizeToHex = (\<lambda>_. Some ''raw''),
     toBuffer = (\<lambda>_. ''psbt''), getScriptType = (\<lambda>_. Some P2WPKH),
     getByteCount = (\<lambda>_ _. Some 250)\<rparr>"

definition demoWorld :: World where
  "demoWorld = \<lparr>now = ''t0'',
     scantxoutset = (\<lambda>_ _. Some \<lparr>success = True,
        unspents = [\<lparr>u_txid = ''f0'', u_vout = 0, u_amount = double_0_1\<rparr>]\<rparr>),
     sendrawtransaction = (\<lambda>_. Some ''txid''),
     getrawtransaction = (\<lambda>_. Some (Some \<lparr>confirmations = 0\<rparr>))\<rparr>"

definition demoCreate :: CreateParams where
  "demoCreate = \<lparr>cp_m = 2, cp_n = 3, cp_name = Some ''vault'',
     cp_participants = [\<lparr>pi_publicKey = ''A'', pi_userId = Some ''alice''\<rparr>,
                        \<lparr>pi_publicKey = ''B'', pi_userId = Some ''bob''\<rparr>,
                        \<lparr>pi_publicKey = ''C'', pi_userId = None\<rparr>]\<rparr>"

definition demoWallet :: Wallet where
  "demoWallet = \<lparr>w_walletId = ''AB'', w_address = ''addr'', w_redeemScript = ''script'',
     w_m = 2, w_n = 3, w_name = ''vault'', w_creationTime = ''t0'',
     w_participants = [\<lparr>publicKey = ''A'', userId = ''alice''\<rparr>,
                       \<lparr>publicKey = ''B'', userId = ''bob''\<rparr>,
                       \<lparr>publicKey = ''C'', userId = []\<rparr>]\<rparr>"

definition demoStore1 :: Store where
  "demoStore1 = \<lparr>wallets = [''AB'' \<mapsto> demoWallet], txs = Map.empty, ids = [''AB'' \<mapsto> ''AB'']\<rparr>"

definition demoInit :: InitiateParams where
  "demoInit = \<lparr>ip_recipientAddress = ''dest'', ip_amount = 100000, ip_feeRate = Some 10,
     ip_note = None\<rparr>"

definition demoPsbt :: SecuxPsbt where
  "demoPsbt = \<lparr>multisig = Some (2, [''A'', ''B'', ''C'']),
     inputs = [\<lparr>hash = ''f0'', vout = 0, satoshis = 10000000\<rparr>],
     outputs = [(''dest'', 100000), (''addr'', 9897500)], partialSigs = []\<rparr>"

definition demoTx :: Transaction where
  "demoTx = \<lparr>transactionId = ''AB'', walletId = ''AB'', recipientAddress = ''dest'',
     amount = 100000, status = pending, psbt = demoPsbt, inputCount = 1,
     requiredSignatures = 2, signatures = fmempty, signaturesReceived = 0,
     signedTransaction = None, initiatedTime = ''t0'', txHash = None, broadcastTime = None,
     tx_note = None\<rparr>"

definition demoStore2 :: Store where
  "demoStore2 = demoStore1\<lparr>txs := [''AB'' \<mapsto> demoTx]\<rparr>"

text \<open>The template of that transaction when its input is in and no output yet.\<close>

definition demoPsbt1 :: SecuxPsbt where
  "demoPsbt1 = demoPsbt\<lparr>outputs := []\<rparr>"

text \<open>The same transaction after B has signed, after A has signed too, and after broadcast.\<close>

definition demoPsbt3 :: SecuxPsbt where
  "demoPsbt3 = demoPsbt\<lparr>partialSigs := [(0, ''B'', ''sigB'')]\<rparr>"

definition demoTx3 :: Transaction where
  "demoTx3 = demoTx\<lparr>signatures := fmupd ''B'' [''sigB''] fmempty, signaturesReceived := 1,
     psbt := demoPsbt3\<rparr>"

definition demoStore3 :: Store where
  "demoStore3 = demoStore1\<lparr>txs := [''AB'' \<mapsto> demoTx3]\<rparr>"

definition demoPsbt4 :: SecuxPsbt where
  "demoPsbt4 = demoPsbt\<lparr>partialSigs := [(0, ''B'', ''sigB''), (0, ''A'', ''sigA'')]\<rparr>"

definition demoTx4 :: Transaction where
  "demoTx4 = demoTx3\<lparr>signatures := fmupd ''A'' [''sigA''] (fmupd ''B'' [''sigB''] fmempty),
     signaturesReceived := 2, psbt := demoPsbt4, status := allsigned,
     signedTransaction := Some ''raw''\<rparr>"

definition demoStore4 :: Store where
  "demoStore4 = demoStore1\<lparr>txs := [''AB'' \<mapsto> demoTx4]\<rparr>"

definition demoTx5 :: Transaction where
  "demoTx5 = demoTx4\<lparr>txHash := Some ''txid'', status := broadcasted,
     broadcastTime := Some ''t0''\<rparr>"

definition demoStore5 :: Store where
  "demoStore5 = demoStore1\<lparr>txs := [''AB'' \<mapsto> demoTx5]\<rparr>"

text \<open>A node that has seen one confirmation, a node that does not answer, a script
  library that rejects every key set and one that rejects every signature.\<close>

definition confirmingWorld :: World where
  "confirmingWorld = demoWorld\<lparr>getrawtransaction := (\<lambda>_. Some (Some \<lparr>confirmations = 1\<rparr>))\<rparr>"

definition deadWorld :: World where
  "deadWorld = \<lparr>now = ''t1'', scantxoutset = (\<lambda>_ _. None), sendrawtransaction = (\<lambda>_. None),
     getrawtransaction = (\<lambda>_. None)\<rparr>"

text \<open>A node that answers the first scan of a call and fails the second.\<close>

definition flakyWorld :: World where
  "flakyWorld = demoWorld\<lparr>scantxoutset :=
     (\<lambda>k a. if k = 0 then scantxoutset demoWorld k a else None)\<rparr>"

definition rejectingLibs :: Libs where
  "rejectingLibs = demoLibs\<lparr>initializeMultiSig := (\<lambda>_ _. None)\<rparr>"

definition pickyLibs :: Libs where
  "pickyLibs = demoLibs\<lparr>signatureAccepted := (\<lambda>_ _ _ _. False)\<rparr>"

text \<open>Further requests: a 1-of-11 wallet, a 3-of-2 wallet, and the keys of the first
  request under another name and with other user ids.\<close>

definition elevenParams :: CreateParams where
  "elevenParams = \<lparr>cp_m = 1, cp_n = 11, cp_name = None,
     cp_participants = map (\<lambda>k. \<lparr>pi_publicKey = k, pi_userId = None\<rparr>)
       [''k01'', ''k02'', ''k03'', ''k04'', ''k05'', ''k06'', ''k07'', ''k08'', ''k09'',
        ''k10'', ''k11'']\<rparr>"

definition badParams :: CreateParams where
  "badParams = \<lparr>cp_m = 3, cp_n = 2, cp_name = None,
     cp_participants = [\<lparr>pi_publicKey = ''A'', pi_userId = None\<rparr>,
                        \<lparr>pi_publicKey = ''B'', pi_userId = None\<rparr>]\<rparr>"

definition demoCreate2 :: CreateParams where
  "demoCreate2 = \<lparr>cp_m = 2, cp_n = 3, cp_name = None,
     cp_participants = [\<lparr>pi_publicKey = ''A'', pi_userId = None\<rparr>,
                        \<lparr>pi_publicKey = ''B'', pi_userId = Some ''carol''\<rparr>,
                        \<lparr>pi_publicKey = ''C'', pi_userId = None\<rparr>]\<rparr>"

subsection \<open>A run on real keys\<close>












section \<open>Shape of each operation's outcome\<close>

lemma createChecks_m_pos: "createChecks p = None \<Longrightarrow> 0 < \<lfloor>cp_m p\<rfloor>"
proof -
  assume "createChecks p = None"
  then have i: "isInteger (cp_m p)" and pos: "\<not> cp_m p \<le> 0"
    by (simp_all add: createChecks_def Let_def split: if_splits)
  from i have "of_int \<lfloor>cp_m p\<rfloor> = cp_m p" unfolding isInteger_def .
  with pos show ?thesis by (metis of_int_0_less_iff not_le)
qed

lemma createChecks_m_ge1: "createChecks p = None \<Longrightarrow> 1 \<le> cp_m p"
  using createChecks_m_pos [of p] by simp

lemma create_shape:
  "case createMultisigWallet L W s p of
     (Inl e, s') \<Rightarrow> txs s' = txs s \<and> wallets s' = wallets s
   | (Inr w, s') \<Rightarrow> txs s' = txs s \<and> wallets s' = (wallets s)(w_walletId w \<mapsto> w) \<and> 0 < w_m w"
  unfolding createMultisigWallet_def generateWalletId_def Let_def
  by (simp split: option.split sum.split add: createChecks_m_ge1)

lemma initiate_shape:
  "case initiateTransaction L W s wid p of
     (Inl e, s') \<Rightarrow> s' = s
   | (Inr t, s') \<Rightarrow>
       s' = s\<lparr>txs := (txs s)(transactionId t \<mapsto> t)\<rparr> \<and>
       status t = pending \<and> signatures t = fmempty \<and> signaturesReceived t = 0 \<and>
       signedTransaction t = None \<and> txHash t = None \<and> broadcastTime t = None \<and>
       walletId t = wid \<and> (\<exists>w. wallets s wid = Some w \<and> requiredSignatures t = w_m w)"
  unfolding initiateTransaction_def Let_def
  by (simp split: option.split sum.split)

lemma afterSign_reached:
  "requiredSignatures t \<le> int (fcard (fmdom (assignProperty (signatures t) pk sigs))) \<Longrightarrow>
   afterSign L t pk sigs p1 =
     t\<lparr>signatures := assignProperty (signatures t) pk sigs,
       signaturesReceived := fcard (fmdom (assignProperty (signatures t) pk sigs)), psbt := p1,
       status := allsigned, signedTransaction := finalizeToHex L p1\<rparr>"
  unfolding afterSign_def Let_def by simp

lemma afterSign_below:
  "\<not> requiredSignatures t \<le> int (fcard (fmdom (assignProperty (signatures t) pk sigs))) \<Longrightarrow>
   afterSign L t pk sigs p1 =
     t\<lparr>signatures := assignProperty (signatures t) pk sigs,
       signaturesReceived := fcard (fmdom (assignProperty (signatures t) pk sigs)), psbt := p1\<rparr>"
  unfolding afterSign_def Let_def by simp

lemma submit_shape:
  "case submitSignature L s tid pk sigs of
     (Inl e, s') \<Rightarrow> s' = s
   | (Inr r, s') \<Rightarrow>
       (\<exists>t p1. txs s tid = Some t \<and> status t = pending \<and> pk \<noteq> [] \<and>
          wallets s (walletId t) \<noteq> None \<and> pk |\<notin>| fmdom (signatures t) \<and>
          applySignatures L (psbt t) pk 0 sigs = Some p1 \<and>
          (int (fcard (fmdom (assignProperty (signatures t) pk sigs))) \<ge> requiredSignatures t
             \<longrightarrow> finalizeToHex L p1 \<noteq> None) \<and>
          r = submitResult (afterSign L t pk sigs p1) \<and>
          s' = s\<lparr>txs := (txs s)(tid \<mapsto> afterSign L t pk sigs p1)\<rparr>)"
  unfolding submitSignature_def Let_def
  by (auto split: option.split sum.split simp: afterSign_reached afterSign_below)

lemma broadcast_shape:
  "case broadcastTransaction W s tid of
     (Inl e, s') \<Rightarrow> s' = s
   | (Inr r, s') \<Rightarrow>
       (\<exists>t h. txs s tid = Some t \<and> status t = allsigned \<and> h \<noteq> [] \<and>
          sendrawtransaction W (signedTransaction t) = Some h \<and>
          s' = s\<lparr>txs := (txs s)(tid \<mapsto> t\<lparr>txHash := Some h, status := broadcasted,
                                         broadcastTime := Some (now W)\<rparr>)\<rparr>)"
  unfolding broadcastTransaction_def utils_broadcastTransaction_def Let_def
  by (simp split: option.split sum.split)

lemma status_shape:
  "case getTransactionStatus W s tid of
     (Inl e, s') \<Rightarrow> s' = s \<and> e = TransactionNotFound tid \<and> txs s tid = None
   | (Inr r, s') \<Rightarrow>
       (\<exists>t. txs s tid = Some t \<and>
          ((s' = s \<and> r = statusSummary t) \<or>
           (status t = broadcasted \<and> r = statusSummary (t\<lparr>status := finished\<rparr>) \<and>
            s' = s\<lparr>txs := (txs s)(tid \<mapsto> t\<lparr>status := finished\<rparr>)\<rparr>)))"
  unfolding getTransactionStatus_def Let_def
  by (simp split: option.split sum.split)

lemma cancel_shape:
  "case cancelTransaction s tid of
     (Inl e, s') \<Rightarrow> s' = s
   | (Inr r, s') \<Rightarrow>
       (\<exists>t. txs s tid = Some t \<and> status t = pending \<and>
          s' = s\<lparr>txs := (txs s)(tid \<mapsto> t\<lparr>status := cancelled\<rparr>)\<rparr>)"
  unfolding cancelTransaction_def Let_def
  by (simp split: option.split sum.split)

section \<open>The invariant of reachable tables\<close>

lemma storeInv_same:
  "storeInv s \<Longrightarrow> wallets s' = wallets s \<Longrightarrow> txs s' = txs s \<Longrightarrow> storeInv s'"
  by (simp add: storeInv_def)

lemma storeInv_wallet:
  "storeInv s \<Longrightarrow> txs s' = txs s \<Longrightarrow> wallets s' = (wallets s)(wid \<mapsto> w) \<Longrightarrow> 0 < w_m w
   \<Longrightarrow> storeInv s'"
  by (simp add: storeInv_def)

lemma storeInv_tx:
  "storeInv s \<Longrightarrow> wallets s' = wallets s \<Longrightarrow> txs s' = (txs s)(tid \<mapsto> t) \<Longrightarrow> txInv t \<Longrightarrow>
   wallets s (walletId t) \<noteq> None \<Longrightarrow> storeInv s'"
  by (simp add: storeInv_def)

lemma create_inv: "storeInv s \<Longrightarrow> storeInv (snd (createMultisigWallet L W s p))"
  using create_shape [where L = L and W = W and s = s and p = p]
  by (auto split: prod.splits sum.splits intro: storeInv_same storeInv_wallet)

lemma initiate_inv: "storeInv s \<Longrightarrow> storeInv (snd (initiateTransaction L W s wid p))"
proof -
  assume inv: "storeInv s"
  obtain r s' where r: "initiateTransaction L W s wid p = (r, s')"
    by (cases "initiateTransaction L W s wid p")
  note shape = initiate_shape [where L = L and W = W and s = s and wid = wid and p = p]
  show ?thesis
  proof (cases r)
    case (Inl e)
    with r shape inv show ?thesis by simp
  next
    case (Inr t)
    with r shape
    have s': "s' = s\<lparr>txs := (txs s)(transactionId t \<mapsto> t)\<rparr>"
      and t: "status t = pending" "signatures t = fmempty" "signaturesReceived t = 0"
         "signedTransaction t = None" "txHash t = None" "broadcastTime t = None"
         "walletId t = wid"
      and w: "\<exists>w. wallets s wid = Some w \<and> requiredSignatures t = w_m w"
      by simp_all
    from w obtain w where w': "wallets s wid = Some w" "requiredSignatures t = w_m w" by blast
    with inv have "0 < w_m w" by (simp add: storeInv_def)
    with t w' have "txInv t" by (simp add: txInv_def)
    with inv s' t w' r show ?thesis
      by (auto intro: storeInv_tx [where s = s and tid = "transactionId t" and t = t])
  qed
qed

lemma txInv_afterSign:
  "txInv t \<Longrightarrow> status t = pending \<Longrightarrow> pk \<noteq> [] \<Longrightarrow>
   (int (fcard (fmdom (assignProperty (signatures t) pk sigs))) \<ge> requiredSignatures t
      \<longrightarrow> finalizeToHex L p1 \<noteq> None) \<Longrightarrow>
   txInv (afterSign L t pk sigs p1)"
  unfolding txInv_def afterSign_def Let_def by (auto simp: assignProperty_def)

lemma walletId_afterSign: "walletId (afterSign L t pk sigs p1) = walletId t"
  unfolding afterSign_def Let_def by simp

lemma submit_inv: "storeInv s \<Longrightarrow> storeInv (snd (submitSignature L s tid pk sigs))"
proof -
  assume inv: "storeInv s"
  obtain r s' where r: "submitSignature L s tid pk sigs = (r, s')"
    by (cases "submitSignature L s tid pk sigs")
  note shape = submit_shape [where L = L and s = s and tid = tid and pk = pk and sigs = sigs]
  show ?thesis
  proof (cases r)
    case (Inl e)
    with r shape inv show ?thesis by simp
  next
    case (Inr x)
    with r shape
    obtain t p1 where t: "txs s tid = Some t" "status t = pending" "pk \<noteq> []"
       "wallets s (walletId t) \<noteq> None"
       "int (fcard (fmdom (assignProperty (signatures t) pk sigs))) \<ge> requiredSignatures t
          \<longrightarrow> finalizeToHex L p1 \<noteq> None"
       and s': "s' = s\<lparr>txs := (txs s)(tid \<mapsto> afterSign L t pk sigs p1)\<rparr>"
      by auto
    from inv t have "txInv t" by (simp add: storeInv_def)
    with t have "txInv (afterSign L t pk sigs p1)" by (simp add: txInv_afterSign)
    with inv s' t r show ?thesis
      by (auto intro: storeInv_tx [where s = s and tid = tid and t = "afterSign L t pk sigs p1"]
               simp: walletId_afterSign)
  qed
qed

lemma broadcast_inv: "storeInv s \<Longrightarrow> storeInv (snd (broadcastTransaction W s tid))"
proof -
  assume inv: "storeInv s"
  obtain r s' where r: "broadcastTransaction W s tid = (r, s')"
    by (cases "broadcastTransaction W s tid")
  note shape = broadcast_shape [where W = W and s = s and tid = tid]
  show ?thesis
  proof (cases r)
    case (Inl e)
    with r shape inv show ?thesis by simp
  next
    case (Inr x)
    with r shape
    obtain t h where t: "txs s tid = Some t" "status t = allsigned" "h \<noteq> []"
       and s': "s' = s\<lparr>txs := (txs s)(tid \<mapsto> t\<lparr>txHash := Some h, status := broadcasted,
                                         broadcastTime := Some (now W)\<rparr>)\<rparr>"
      by auto
    from inv t have ti: "txInv t" and tw: "wallets s (walletId t) \<noteq> None"
      by (simp_all add: storeInv_def)
    from ti t
    have "txInv (t\<lparr>txHash := Some h, status := broadcasted, broadcastTime := Some (now W)\<rparr>)"
      by (simp add: txInv_def truthyHash_def)
    with inv s' tw r show ?thesis
      by (auto intro: storeInv_tx [where s = s and tid = tid and
            t = "t\<lparr>txHash := Some h, status := broadcasted, broadcastTime := Some (now W)\<rparr>"])
  qed
qed

lemma status_inv: "storeInv s \<Longrightarrow> storeInv (snd (getTransactionStatus W s tid))"
proof -
  assume inv: "storeInv s"
  obtain r s' where r: "getTransactionStatus W s tid = (r, s')"
    by (cases "getTransactionStatus W s tid")
  note shape = status_shape [where W = W and s = s and tid = tid]
  show ?thesis
  proof (cases r)
    case (Inl e)
    with r shape inv show ?thesis by simp
  next
    case (Inr x)
    with r shape
    obtain t where t: "txs s tid = Some t"
       and s': "s' = s \<or> (status t = broadcasted \<and>
                  s' = s\<lparr>txs := (txs s)(tid \<mapsto> t\<lparr>status := finished\<rparr>)\<rparr>)"
      by auto
    from inv t have ti: "txInv t" and tw: "wallets s (walletId t) \<noteq> None"
      by (simp_all add: storeInv_def)
    have "status t = broadcasted \<Longrightarrow> txInv (t\<lparr>status := finished\<rparr>)"
      using ti by (simp add: txInv_def)
    with inv s' tw r show ?thesis
      by (auto intro: storeInv_tx [where s = s and tid = tid and t = "t\<lparr>status := finished\<rparr>"])
  qed
qed

lemma cancel_inv: "storeInv s \<Longrightarrow> storeInv (snd (cancelTransaction s tid))"
proof -
  assume inv: "storeInv s"
  obtain r s' where r: "cancelTransaction s tid = (r, s')"
    by (cases "cancelTransaction s tid")
  note shape = cancel_shape [where s = s and tid = tid]
  show ?thesis
  proof (cases r)
    case (Inl e)
    with r shape inv show ?thesis by simp
  next
    case (Inr x)
    with r shape
    obtain t where t: "txs s tid = Some t" "status t = pending"
       and s': "s' = s\<lparr>txs := (txs s)(tid \<mapsto> t\<lparr>status := cancelled\<rparr>)\<rparr>"
      by auto
    from inv t have ti: "txInv t" and tw: "wallets s (walletId t) \<noteq> None"
      by (simp_all add: storeInv_def)
    from ti t have "txInv (t\<lparr>status := cancelled\<rparr>)" by (simp add: txInv_def)
    with inv s' tw r show ?thesis
      by (auto intro: storeInv_tx [where s = s and tid = tid and t = "t\<lparr>status := cancelled\<rparr>"])
  qed
qed

lemma reachable_inv: "reachable L s \<Longrightarrow> storeInv s"
proof (induction rule: reachable.induct)
  case r_empty
  show ?case by (simp add: storeInv_def emptyStore_def)
qed (simp_all add: create_inv initiate_inv submit_inv broadcast_inv status_inv cancel_inv)

lemma reachable_tx:
  "reachable L s \<Longrightarrow> txs s tid = Some t \<Longrightarrow> txInv t \<and> wallets s (walletId t) \<noteq> None"
  using reachable_inv [of L s] by (simp add: storeInv_def)

section \<open>Evaluating the concrete run\<close>

lemma fromHex_4142: "fromHex ''4142'' = ''AB''"
  by code_simp

lemma mathRound_demo: "mathRound (roundToDouble (double_0_1 * 100000000)) = 10000000"
  by code_simp

lemma double_0_1_kept: "double_0_02 < double_0_1"
  by code_simp

lemma demoLibs_simps:
  "sha256hex demoLibs x = ''4142''" "base58encode demoLibs b = b"
  "initializeMultiSig demoLibs k keys = Some (''addr'', ''script'')"
  "inputAccepted demoLibs p u" "outputAccepted demoLibs p a v"
  "signatureAccepted demoLibs p i pk sg" "finalizeToHex demoLibs p = Some ''raw''"
  "toBuffer demoLibs p = ''psbt''" "getScriptType demoLibs a = Some P2WPKH"
  "getByteCount demoLibs ins outs = Some 250"
  by (simp_all add: demoLibs_def)

lemma demoWorld_simps:
  "now demoWorld = ''t0''"
  "scantxoutset demoWorld k a = Some \<lparr>success = True,
        unspents = [\<lparr>u_txid = ''f0'', u_vout = 0, u_amount = double_0_1\<rparr>]\<rparr>"
  "sendrawtransaction demoWorld x = Some ''txid''"
  "getrawtransaction demoWorld h = Some (Some \<lparr>confirmations = 0\<rparr>)"
  by (simp_all add: demoWorld_def)

lemma demo_customHash: "customHash demoLibs x = Inr ''AB''"
  unfolding customHash_def Let_def demoLibs_simps fromHex_4142 by simp

lemma demo_create:
  "createMultisigWallet demoLibs demoWorld emptyStore demoCreate = (Inr demoWallet, demoStore1)"
  by (simp add: createMultisigWallet_def createChecks_def isInteger_def demoCreate_def Let_def
      demo_customHash generateWalletId_def demoWallet_def demoStore1_def emptyStore_def
      orEmpty_def demoLibs_simps demoWorld_simps)

lemma demo_utxos:
  "getUTXOsBlockbook demoWorld k a = Inr [\<lparr>hash = ''f0'', vout = 0, satoshis = 10000000\<rparr>]"
  by (simp add: getUTXOsBlockbook_def getUTXOs_def demoWorld_simps mathRound_demo double_0_1_kept)

lemma demoStore1_wallet: "wallets demoStore1 ''AB'' = Some demoWallet"
  by (simp add: demoStore1_def)

lemma demo_vsize:
  "wallets s ''AB'' = Some demoWallet \<Longrightarrow>
   estimateVirtualSize demoLibs demoWorld k s ''AB'' r = Inr 250"
  by (simp add: estimateVirtualSize_def demo_utxos demoLibs_simps)

lemma demo_fee: "estimatedFeeOf 250 (Some 10) = 2500"
  unfolding estimatedFeeOf_def by code_simp

lemma demo_fee_rounded: "estimatedFeeOf 250 (Some double_1_1) = 275"
  unfolding estimatedFeeOf_def by code_simp

lemma demo_initiate:
  "initiateTransaction demoLibs demoWorld demoStore1 ''AB'' demoInit = (Inr demoTx, demoStore2)"
  by (simp add: initiateTransaction_def demoInit_def demo_utxos demo_vsize demo_customHash Let_def
        demo_fee psbtInitializeMultiSig_def addMultiSigInput_def AddOutput_def
        newPsbt_def demoStore1_wallet demoWallet_def demoLibs_simps demoWorld_simps)
     (simp add: demoStore2_def demoStore1_def demoTx_def demoPsbt_def)

lemma demo_initiate_again:
  "wallets s ''AB'' = Some demoWallet \<Longrightarrow>
   initiateTransaction demoLibs demoWorld s ''AB'' demoInit =
     (Inr demoTx, s\<lparr>txs := (txs s)(''AB'' \<mapsto> demoTx)\<rparr>)"
  by (simp add: initiateTransaction_def demoInit_def demo_utxos demo_vsize demo_customHash Let_def
        demo_fee psbtInitializeMultiSig_def addMultiSigInput_def AddOutput_def
        newPsbt_def demoWallet_def demoLibs_simps demoWorld_simps)
     (simp add: demoTx_def demoPsbt_def)

lemma demoStore2_tx: "txs demoStore2 ''AB'' = Some demoTx"
  by (simp add: demoStore2_def)

lemma demoStore2_wallet: "wallets demoStore2 ''AB'' = Some demoWallet"
  by (simp add: demoStore2_def demoStore1_def)

lemma reachable_demoStore1: "reachable demoLibs demoStore1"
  using r_create [OF r_empty, of demoLibs demoWorld demoCreate] by (simp add: demo_create)

lemma reachable_demoStore2: "reachable demoLibs demoStore2"
  using r_initiate [OF reachable_demoStore1, of demoWorld "''AB''" demoInit]
  by (simp add: demo_initiate)

lemma demo_submit_B:
  "submitSignature demoLibs demoStore2 ''AB'' ''B'' [''sigB''] =
     (Inr \<lparr>sr_transactionId = ''AB'', sr_status = pending, sr_signaturesReceived = 1,
            sr_requiredSignatures = 1\<rparr>, demoStore3)"
  by (simp add: submitSignature_def demoStore2_tx demoStore2_wallet demoTx_def Let_def
        psbtSubmitSignature_def demoLibs_simps submitResult_def fcard_finsert_if fcard_fempty
        assignProperty_def)
     (simp add: demoStore2_def demoStore3_def demoTx3_def demoTx_def demoPsbt3_def demoPsbt_def fcard_fempty)

lemma demoStore3_tx: "txs demoStore3 ''AB'' = Some demoTx3"
  by (simp add: demoStore3_def)

lemma demoStore3_wallet: "wallets demoStore3 ''AB'' = Some demoWallet"
  by (simp add: demoStore3_def demoStore1_def)

lemma reachable_demoStore3: "reachable demoLibs demoStore3"
  using r_submit [OF reachable_demoStore2, of "''AB''" "''B''" "[''sigB'']"]
  by (simp add: demo_submit_B)

lemma demo_submit_A:
  "submitSignature demoLibs demoStore3 ''AB'' ''A'' [''sigA''] =
     (Inr \<lparr>sr_transactionId = ''AB'', sr_status = allsigned, sr_signaturesReceived = 2,
            sr_requiredSignatures = 0\<rparr>, demoStore4)"
  by (simp add: submitSignature_def demoStore3_tx demoStore3_wallet demoTx3_def demoTx_def Let_def
        psbtSubmitSignature_def demoLibs_simps submitResult_def fcard_finsert_if fcard_fempty
        assignProperty_def)
     (simp add: demoStore3_def demoStore4_def demoTx4_def demoTx3_def demoTx_def demoPsbt3_def demoPsbt4_def demoPsbt_def fcard_fempty numeral_2_eq_2)

lemma demoStore4_tx: "txs demoStore4 ''AB'' = Some demoTx4"
  by (simp add: demoStore4_def)

lemma reachable_demoStore4: "reachable demoLibs demoStore4"
  using r_submit [OF reachable_demoStore3, of "''AB''" "''A''" "[''sigA'']"]
  by (simp add: demo_submit_A)

lemma demo_broadcast:
  "broadcastTransaction demoWorld demoStore4 ''AB'' =
     (Inr \<lparr>br_transactionId = ''AB'', br_status = broadcasted, br_txHash = ''txid'',
            br_broadcastTime = Some ''t0'', br_message = ''Transaction broadcast successfully''\<rparr>,
      demoStore5)"
  by (simp add: broadcastTransaction_def utils_broadcastTransaction_def demoStore4_tx Let_def
        demoWorld_simps demoTx4_def demoTx3_def demoTx_def)
     (simp add: demoStore4_def demoStore5_def demoTx5_def demoTx4_def demoTx3_def demoTx_def)

lemma demoStore5_tx: "txs demoStore5 ''AB'' = Some demoTx5"
  by (simp add: demoStore5_def)

lemma reachable_demoStore5: "reachable demoLibs demoStore5"
  using r_broadcast [OF reachable_demoStore4, of demoWorld "''AB''"]
  by (simp add: demo_broadcast)

lemma demoTx3_facts:
  "status demoTx3 = pending" "signaturesReceived demoTx3 = 1" "requiredSignatures demoTx3 = 2"
  "fmdom (signatures demoTx3) = {|''B''|}" "psbt demoTx3 = demoPsbt3" "transactionId demoTx3 = ''AB''"
  by (simp_all add: demoTx3_def demoTx_def)

lemma demo_apply_A: "applySignatures demoLibs demoPsbt3 ''A'' 0 [''sigA''] = Some demoPsbt4"
  by (simp add: psbtSubmitSignature_def demoLibs_simps demoPsbt3_def demoPsbt4_def)

lemma demoTx_facts:
  "status demoTx = pending" "signaturesReceived demoTx = 0" "requiredSignatures demoTx = 2"
  "fmdom (signatures demoTx) = {||}" "inputCount demoTx = 1" "transactionId demoTx = ''AB''"
  by (simp_all add: demoTx_def)

lemma demoTx5_facts:
  "status demoTx5 = broadcasted" "txHash demoTx5 = Some ''txid''"
  by (simp_all add: demoTx5_def)

lemma demoTx4_facts:
  "status demoTx4 = allsigned" "signedTransaction demoTx4 = Some ''raw''"
  by (simp_all add: demoTx4_def)

lemma demo_init_psbt:
  "psbtInitializeMultiSig demoLibs newPsbt (w_m demoWallet) (map publicKey (w_participants demoWallet))
     = Some (demoPsbt1\<lparr>inputs := []\<rparr>)"
  by (simp add: psbtInitializeMultiSig_def demoLibs_simps newPsbt_def demoWallet_def demoPsbt1_def
        demoPsbt_def)

lemma demo_addInputs:
  "addInputs demoLibs (demoPsbt1\<lparr>inputs := []\<rparr>) [\<lparr>hash = ''f0'', vout = 0, satoshis = 10000000\<rparr>]
     = Some demoPsbt1"
  by (simp add: addMultiSigInput_def demoLibs_simps demoPsbt1_def demoPsbt_def)

lemma demo_AddOutput:
  "AddOutput demoLibs q a v = Some (q\<lparr>outputs := outputs q @ [(a, v)]\<rparr>)"
  by (simp add: AddOutput_def demoLibs_simps)


lemma rejecting_customHash: "customHash rejectingLibs x = Inr ''AB''"
  unfolding customHash_def Let_def by (simp add: rejectingLibs_def demoLibs_def fromHex_4142 del: fromHex.simps)

lemma demo_create_rejected:
  "createMultisigWallet rejectingLibs demoWorld emptyStore demoCreate =
     (Inl (CollaboratorFailed ''initializeMultiSig''), emptyStore\<lparr>ids := [''AB'' \<mapsto> ''AB'']\<rparr>)"
  by (simp add: createMultisigWallet_def createChecks_def isInteger_def demoCreate_def Let_def
      rejecting_customHash generateWalletId_def emptyStore_def)
     (simp add: rejectingLibs_def)

lemma demo_cancel_allsigned:
  "cancelTransaction demoStore4 ''AB'' = (Inl (CancelNotPending allsigned), demoStore4)"
  by (simp add: cancelTransaction_def demoStore4_tx demoTx4_facts)

lemma demoStore4_wallet: "wallets demoStore4 ''AB'' = Some demoWallet"
  by (simp add: demoStore4_def demoStore1_def)

section \<open>Invariants of stored transactions\<close>

lemma afterSign_facts:
  assumes "txInv t" and "status t = pending"
    and "int (fcard (fmdom (assignProperty (signatures t) pk sigs))) \<ge> requiredSignatures t
          \<longrightarrow> finalizeToHex L p1 \<noteq> None"
  shows "signaturesReceived (afterSign L t pk sigs p1) =
           fcard (fmdom (signatures (afterSign L t pk sigs p1)))"
    and "requiredSignatures (afterSign L t pk sigs p1) = requiredSignatures t"
    and "psbt (afterSign L t pk sigs p1) = p1"
    and "requiredSignatures t \<le> int (signaturesReceived (afterSign L t pk sigs p1)) \<Longrightarrow>
           status (afterSign L t pk sigs p1) = allsigned \<and>
           signedTransaction (afterSign L t pk sigs p1) = finalizeToHex L p1 \<and>
           signedTransaction (afterSign L t pk sigs p1) \<noteq> None"
    and "int (signaturesReceived (afterSign L t pk sigs p1)) < requiredSignatures t \<Longrightarrow>
           status (afterSign L t pk sigs p1) = pending \<and>
           signedTransaction (afterSign L t pk sigs p1) = None"
  using assms unfolding afterSign_def Let_def txInv_def by (auto split: if_splits)

text \<open>
  C1. In every transaction record in pending status that the engine can produce,
  \<open>signaturesReceived\<close> is the number of entries of the signatures map and is at most
  \<open>requiredSignatures\<close>. Every \<^verbatim>\<open>submitSignature\<close> call that succeeds on such a
  record stores a record whose \<open>signaturesReceived\<close> is again the number of entries of
  its signatures map, and reports that count and the stored status. When the stored
  count has reached \<open>requiredSignatures\<close>, that same call has finalized the template,
  stored the result as \<open>signedTransaction\<close> and set the status all-signed; when it has
  not, the record is still pending and has no \<open>signedTransaction\<close>. Such calls exist: a
  call with a non-empty public key not yet in the map, whose signatures the library
  accepts, with which the number of entries of the map reaches \<open>requiredSignatures\<close>
  and whose template the library finalizes, succeeds with the signer, the count, the
  finalized transaction and the status all-signed stored, and reports no signature as
  missing.
\<close>

theorem pending_count_and_threshold:
  assumes "reachable L s" and "txs s tid = Some t" and "status t = pending"
  shows "signaturesReceived t = fcard (fmdom (signatures t)) \<and>
         int (signaturesReceived t) \<le> requiredSignatures t \<and>
         (submitSignature L s tid pk sigs = (Inr r, s') \<longrightarrow>
            (\<exists>t'. txs s' tid = Some t' \<and>
                  signaturesReceived t' = fcard (fmdom (signatures t')) \<and>
                  sr_signaturesReceived r = signaturesReceived t' \<and> sr_status r = status t' \<and>
                  (requiredSignatures t' \<le> int (signaturesReceived t') \<longrightarrow>
                     status t' = allsigned \<and>
                     signedTransaction t' = finalizeToHex L (psbt t') \<and>
                     signedTransaction t' \<noteq> None) \<and>
                  (int (signaturesReceived t') < requiredSignatures t' \<longrightarrow>
                     status t' = pending \<and> signedTransaction t' = None))) \<and>
         (pk \<noteq> [] \<longrightarrow> pk |\<notin>| fmdom (signatures t) \<longrightarrow>
          applySignatures L (psbt t) pk 0 sigs = Some p1 \<longrightarrow>
          requiredSignatures t \<le> int (fcard (fmdom (assignProperty (signatures t) pk sigs))) \<longrightarrow>
          finalizeToHex L p1 = Some raw \<longrightarrow>
          submitSignature L s tid pk sigs =
            (Inr \<lparr>sr_transactionId = transactionId t, sr_status = allsigned,
                   sr_signaturesReceived = Suc (signaturesReceived t),
                   sr_requiredSignatures = 0\<rparr>,
             s\<lparr>txs := (txs s)(tid \<mapsto>
                  t\<lparr>signatures := fmupd pk sigs (signatures t),
                    signaturesReceived := Suc (signaturesReceived t), psbt := p1,
                    status := allsigned, signedTransaction := Some raw\<rparr>)\<rparr>))"
proof -
  from reachable_tx [OF assms(1,2)] assms(3)
  have inv: "txInv t"
    and cnt: "signaturesReceived t = fcard (fmdom (signatures t))"
    and lt: "int (signaturesReceived t) < requiredSignatures t"
    and w: "wallets s (walletId t) \<noteq> None"
    by (simp_all add: txInv_def)
  have bwd: "\<exists>t'. txs s' tid = Some t' \<and>
                  signaturesReceived t' = fcard (fmdom (signatures t')) \<and>
                  sr_signaturesReceived r = signaturesReceived t' \<and> sr_status r = status t' \<and>
                  (requiredSignatures t' \<le> int (signaturesReceived t') \<longrightarrow>
                     status t' = allsigned \<and>
                     signedTransaction t' = finalizeToHex L (psbt t') \<and>
                     signedTransaction t' \<noteq> None) \<and>
                  (int (signaturesReceived t') < requiredSignatures t' \<longrightarrow>
                     status t' = pending \<and> signedTransaction t' = None)"
    if ok: "submitSignature L s tid pk sigs = (Inr r, s')"
  proof -
    from ok submit_shape [where L = L and s = s and tid = tid and pk = pk and sigs = sigs] assms(2)
    obtain p1' where
      fin: "int (fcard (fmdom (assignProperty (signatures t) pk sigs))) \<ge> requiredSignatures t
          \<longrightarrow> finalizeToHex L p1' \<noteq> None"
      and r: "r = submitResult (afterSign L t pk sigs p1')"
      and s': "s' = s\<lparr>txs := (txs s)(tid \<mapsto> afterSign L t pk sigs p1')\<rparr>"
      by auto
    note f = afterSign_facts [OF inv assms(3) fin]
    from s' have "txs s' tid = Some (afterSign L t pk sigs p1')" by simp
    with r f show ?thesis by (auto simp: submitResult_def) metis
  qed
  have forth: "submitSignature L s tid pk sigs =
            (Inr \<lparr>sr_transactionId = transactionId t, sr_status = allsigned,
                   sr_signaturesReceived = Suc (signaturesReceived t),
                   sr_requiredSignatures = 0\<rparr>,
             s\<lparr>txs := (txs s)(tid \<mapsto>
                  t\<lparr>signatures := fmupd pk sigs (signatures t),
                    signaturesReceived := Suc (signaturesReceived t), psbt := p1,
                    status := allsigned, signedTransaction := Some raw\<rparr>)\<rparr>)"
    if h: "pk \<noteq> []" "pk |\<notin>| fmdom (signatures t)"
       "applySignatures L (psbt t) pk 0 sigs = Some p1"
       "requiredSignatures t \<le> int (fcard (fmdom (assignProperty (signatures t) pk sigs)))"
       "finalizeToHex L p1 = Some raw"
  proof -
    from h(4) lt cnt have a: "assignProperty (signatures t) pk sigs = fmupd pk sigs (signatures t)"
      by (auto simp: assignProperty_def split: if_splits)
    from h(2) cnt have c: "fcard (finsert pk (fmdom (signatures t))) = Suc (signaturesReceived t)"
      by (simp add: fcard_finsert_disjoint)
    from lt h(4) a c have eq: "requiredSignatures t = int (Suc (signaturesReceived t))" by simp
    from w obtain wd where wd: "wallets s (walletId t) = Some wd" by blast
    show ?thesis
      unfolding submitSignature_def Let_def
      using h(1-3,5) assms(2,3) wd c eq a by (simp add: submitResult_def)
  qed
  from cnt lt bwd forth show ?thesis by simp
qed

theorem pending_count_and_threshold_witness:
  "reachable demoLibs demoStore3 \<and> txs demoStore3 ''AB'' = Some demoTx3 \<and>
   status demoTx3 = pending \<and> signaturesReceived demoTx3 = 1 \<and>
   fcard (fmdom (signatures demoTx3)) = 1 \<and> requiredSignatures demoTx3 = 2 \<and>
   ''A'' |\<notin>| fmdom (signatures demoTx3) \<and>
   fcard (fmdom (assignProperty (signatures demoTx3) ''A'' [''sigA''])) = 2 \<and>
   applySignatures demoLibs (psbt demoTx3) ''A'' 0 [''sigA''] = Some demoPsbt4 \<and>
   finalizeToHex demoLibs demoPsbt4 = Some ''raw'' \<and>
   submitSignature demoLibs demoStore3 ''AB'' ''A'' [''sigA''] =
     (Inr \<lparr>sr_transactionId = ''AB'', sr_status = allsigned, sr_signaturesReceived = 2,
           sr_requiredSignatures = 0\<rparr>, demoStore4) \<and>
   txs demoStore4 ''AB'' = Some demoTx4 \<and> status demoTx4 = allsigned \<and>
   signaturesReceived demoTx4 = 2 \<and> signedTransaction demoTx4 = Some ''raw''"
  using pending_count_and_threshold [OF reachable_demoStore3 demoStore3_tx demoTx3_facts(1),
          where pk = "''A''" and sigs = "[''sigA'']" and ?p1.0 = demoPsbt4 and raw = "''raw''"
          and r = "\<lparr>sr_transactionId = ''AB'', sr_status = allsigned, sr_signaturesReceived = 2,
           sr_requiredSignatures = 0\<rparr>" and s' = demoStore4]
  by (simp add: reachable_demoStore3 demoStore3_tx demoTx3_facts demo_apply_A demoLibs_simps
        fcard_finsert_if fcard_fempty numeral_2_eq_2 demo_submit_A demoStore4_tx demoTx4_def
        assignProperty_def del: applySignatures.simps)

text \<open>
  C5. In every transaction record that the engine can produce, \<open>signedTransaction\<close> is
  present exactly when the status is all-signed, broadcasted or confirmed, and
  \<open>txHash\<close> and \<open>broadcastTime\<close> are present exactly when the status is
  broadcasted or confirmed.
\<close>

theorem optional_fields_follow_status:
  assumes "reachable L s" and "txs s tid = Some t"
  shows "((signedTransaction t \<noteq> None) =
            (status t = allsigned \<or> status t = broadcasted \<or> status t = finished)) \<and>
         ((txHash t \<noteq> None) = (status t = broadcasted \<or> status t = finished)) \<and>
         ((broadcastTime t \<noteq> None) = (status t = broadcasted \<or> status t = finished))"
  using reachable_tx [OF assms] by (simp add: txInv_def)

theorem optional_fields_follow_status_witness:
  "reachable demoLibs demoStore5 \<and> txs demoStore5 ''AB'' = Some demoTx5 \<and>
   status demoTx5 = broadcasted \<and> signedTransaction demoTx5 \<noteq> None \<and>
   txHash demoTx5 \<noteq> None \<and> broadcastTime demoTx5 \<noteq> None"
  using optional_fields_follow_status [OF reachable_demoStore5 demoStore5_tx]
  by (simp add: reachable_demoStore5 demoStore5_tx demoTx5_def)

section \<open>Signature submission\<close>

text \<open>
  C4. For a pending transaction whose signatures map already holds the submitted public
  key, \<^verbatim>\<open>submitSignature\<close> fails with the already-signed error (the specification's
  DuplicateSigner) and the table after the call is the table before it: no record, and
  so no \<open>signaturesReceived\<close>, changes.
\<close>

theorem duplicate_signer_rejected:
  assumes "reachable L s" and "txs s tid = Some t" and "status t = pending"
    and "pk |\<in>| fmdom (signatures t)"
  shows "submitSignature L s tid pk sigs = (Inl (AlreadySigned pk), s)"
proof -
  from reachable_tx [OF assms(1,2)]
  have ne: "[] |\<notin>| fmdom (signatures t)" and w: "wallets s (walletId t) \<noteq> None"
    by (simp_all add: txInv_def)
  from ne assms(4) have "pk \<noteq> []" by auto
  moreover from w obtain wd where "wallets s (walletId t) = Some wd" by blast
  ultimately show ?thesis
    unfolding submitSignature_def using assms(2-4) by simp
qed

theorem duplicate_signer_rejected_witness:
  "reachable demoLibs demoStore3 \<and> txs demoStore3 ''AB'' = Some demoTx3 \<and>
   status demoTx3 = pending \<and> ''B'' |\<in>| fmdom (signatures demoTx3) \<and>
   signaturesReceived demoTx3 = 1 \<and>
   submitSignature demoLibs demoStore3 ''AB'' ''B'' [''other''] =
     (Inl (AlreadySigned ''B''), demoStore3)"
  using duplicate_signer_rejected [OF reachable_demoStore3 demoStore3_tx demoTx3_facts(1),
          of "''B''" "[''other'']"]
  by (simp add: reachable_demoStore3 demoStore3_tx demoTx3_facts)

text \<open>
  C10, as the code has it. \<^verbatim>\<open>submitSignature\<close> never compares the number of submitted
  signatures with \<open>inputCount\<close>: for a pending transaction and a non-empty public key,
  other than \<^verbatim>\<open>__proto__\<close>, that is not yet in its signatures map, an empty
  signature list is accepted whenever the signer count stays below
  \<open>requiredSignatures\<close>. The signer is stored with an empty list,
  \<open>signaturesReceived\<close> grows by one and the template is left as it was.
\<close>

theorem empty_signature_list_counts:
  assumes "reachable L s" and "txs s tid = Some t" and "status t = pending"
    and "pk \<noteq> []" and "pk \<noteq> ''__proto__''" and "pk |\<notin>| fmdom (signatures t)"
    and "int (Suc (signaturesReceived t)) < requiredSignatures t"
  shows "submitSignature L s tid pk [] =
     (Inr \<lparr>sr_transactionId = transactionId t, sr_status = pending,
            sr_signaturesReceived = Suc (signaturesReceived t),
            sr_requiredSignatures = requiredSignatures t - int (Suc (signaturesReceived t))\<rparr>,
      s\<lparr>txs := (txs s)(tid \<mapsto>
           t\<lparr>signatures := fmupd pk [] (signatures t),
             signaturesReceived := Suc (signaturesReceived t)\<rparr>)\<rparr>)"
proof -
  from reachable_tx [OF assms(1,2)] assms(3)
  have cnt: "signaturesReceived t = fcard (fmdom (signatures t))"
    and w: "wallets s (walletId t) \<noteq> None"
    by (simp_all add: txInv_def)
  from assms(6) cnt have c: "fcard (finsert pk (fmdom (signatures t))) = Suc (signaturesReceived t)"
    by (simp add: fcard_finsert_disjoint)
  from w obtain wd where wd: "wallets s (walletId t) = Some wd" by blast
  show ?thesis
    unfolding submitSignature_def Let_def
    using assms(2-7) wd c by (simp add: submitResult_def assignProperty_def)
qed

theorem empty_signature_list_counts_witness:
  "reachable demoLibs demoStore2 \<and> txs demoStore2 ''AB'' = Some demoTx \<and>
   status demoTx = pending \<and> ''C'' |\<notin>| fmdom (signatures demoTx) \<and>
   inputCount demoTx = 1 \<and> signaturesReceived demoTx = 0 \<and> requiredSignatures demoTx = 2 \<and>
   fst (submitSignature demoLibs demoStore2 ''AB'' ''C'' []) =
     Inr \<lparr>sr_transactionId = ''AB'', sr_status = pending, sr_signaturesReceived = 1,
           sr_requiredSignatures = 1\<rparr>"
  using empty_signature_list_counts [OF reachable_demoStore2 demoStore2_tx demoTx_facts(1),
          of "''C''"]
  by (simp add: reachable_demoStore2 demoStore2_tx demoTx_facts)

text \<open>
  C10, as stated, speaks of every public key that is not yet in the signatures map. The
  empty key is not in the map of a pending transaction without signers, and the call
  with it fails on the test of line 71, before the transaction is read. The key
  \<^verbatim>\<open>__proto__\<close> is not in that map either; the call with it and an empty list
  succeeds, but the assignment of line 109 sets the prototype of the map and adds no
  entry: no signer is recorded and \<open>signaturesReceived\<close> stays 0.
\<close>

theorem ignored_key_counterexample:
  "txs demoStore2 ''AB'' = Some demoTx \<and> status demoTx = pending \<and>
   fmdom (signatures demoTx) = {||} \<and> signaturesReceived demoTx = 0 \<and>
   requiredSignatures demoTx = 2 \<and>
   submitSignature demoLibs demoStore2 ''AB'' [] [] = (Inl PublicKeyEmpty, demoStore2) \<and>
   submitSignature demoLibs demoStore2 ''AB'' ''__proto__'' [] =
     (Inr \<lparr>sr_transactionId = ''AB'', sr_status = pending, sr_signaturesReceived = 0,
            sr_requiredSignatures = 2\<rparr>, demoStore2)"
  by (simp add: demoStore2_tx demoTx_def submitSignature_def demoStore2_wallet Let_def
        assignProperty_def submitResult_def fcard_fempty)
     (simp add: demoStore2_def demoStore1_def demoTx_def)

section \<open>Confirmation polling\<close>

text \<open>
  C9. For a broadcasted transaction, \<^verbatim>\<open>getTransactionStatus\<close> with a node that
  reports 0 confirmations returns the stored summary and leaves the table as it is, so
  repeating the call gives the same. With a node that reports more than 0 confirmations
  the call stores the record with status confirmed and returns its summary; on the table
  so obtained every later call, whatever the node answers, returns that same summary and
  changes nothing.
\<close>

theorem status_polling_idempotent:
  assumes "reachable L s" and "txs s tid = Some t" and "status t = broadcasted"
  shows "\<exists>h. txHash t = Some h \<and>
     (getrawtransaction W h = Some (Some d) \<and> confirmations d = 0 \<longrightarrow>
        getTransactionStatus W s tid = (Inr (statusSummary t), s)) \<and>
     (getrawtransaction W' h = Some (Some d') \<and> 0 < confirmations d' \<longrightarrow>
        getTransactionStatus W' s tid =
          (Inr (statusSummary (t\<lparr>status := finished\<rparr>)),
           s\<lparr>txs := (txs s)(tid \<mapsto> t\<lparr>status := finished\<rparr>)\<rparr>) \<and>
        getTransactionStatus W'' (s\<lparr>txs := (txs s)(tid \<mapsto> t\<lparr>status := finished\<rparr>)\<rparr>) tid =
          (Inr (statusSummary (t\<lparr>status := finished\<rparr>)),
           s\<lparr>txs := (txs s)(tid \<mapsto> t\<lparr>status := finished\<rparr>)\<rparr>))"
proof -
  from reachable_tx [OF assms(1,2)] assms(3)
  have "truthyHash (txHash t) \<noteq> None" by (simp add: txInv_def)
  then obtain h where h: "txHash t = Some h" "h \<noteq> []"
    by (auto simp: truthyHash_def split: option.splits if_splits)
  then have th: "truthyHash (txHash t) = Some h" by (simp add: truthyHash_def)
  have a: "getTransactionStatus W s tid = (Inr (statusSummary t), s)"
    if "getrawtransaction W h = Some (Some d)" "confirmations d = 0"
    unfolding getTransactionStatus_def utils_getTransactionStatus_def Let_def
    using that assms(2,3) th by simp
  have b: "getTransactionStatus W' s tid =
          (Inr (statusSummary (t\<lparr>status := finished\<rparr>)),
           s\<lparr>txs := (txs s)(tid \<mapsto> t\<lparr>status := finished\<rparr>)\<rparr>)"
    if "getrawtransaction W' h = Some (Some d')" "0 < confirmations d'"
    unfolding getTransactionStatus_def utils_getTransactionStatus_def Let_def
    using that assms(2,3) th by simp
  have c: "getTransactionStatus W'' (s\<lparr>txs := (txs s)(tid \<mapsto> t\<lparr>status := finished\<rparr>)\<rparr>) tid =
          (Inr (statusSummary (t\<lparr>status := finished\<rparr>)),
           s\<lparr>txs := (txs s)(tid \<mapsto> t\<lparr>status := finished\<rparr>)\<rparr>)"
    unfolding getTransactionStatus_def by simp
  from h a b c show ?thesis by blast
qed

theorem status_polling_idempotent_witness:
  "reachable demoLibs demoStore5 \<and> txs demoStore5 ''AB'' = Some demoTx5 \<and>
   status demoTx5 = broadcasted \<and> txHash demoTx5 = Some ''txid'' \<and>
   getrawtransaction demoWorld ''txid'' = Some (Some \<lparr>confirmations = 0\<rparr>) \<and>
   getrawtransaction confirmingWorld ''txid'' = Some (Some \<lparr>confirmations = 1\<rparr>) \<and>
   getTransactionStatus demoWorld demoStore5 ''AB'' = (Inr (statusSummary demoTx5), demoStore5) \<and>
   ss_status (statusSummary demoTx5) = broadcasted \<and>
   fst (getTransactionStatus confirmingWorld demoStore5 ''AB'') =
     Inr (statusSummary (demoTx5\<lparr>status := finished\<rparr>)) \<and>
   getTransactionStatus deadWorld (snd (getTransactionStatus confirmingWorld demoStore5 ''AB'')) ''AB'' =
     (Inr (statusSummary (demoTx5\<lparr>status := finished\<rparr>)),
      snd (getTransactionStatus confirmingWorld demoStore5 ''AB''))"
  using status_polling_idempotent [OF reachable_demoStore5 demoStore5_tx demoTx5_facts(1),
          of demoWorld "\<lparr>confirmations = 0\<rparr>" confirmingWorld "\<lparr>confirmations = 1\<rparr>" deadWorld]
  by (simp add: reachable_demoStore5 demoStore5_tx demoTx5_facts demoWorld_simps
        confirmingWorld_def statusSummary_def)

section \<open>The status state machine\<close>

lemma status_afterSign:
  "status (afterSign L t pk sigs p1) = status t \<or> status (afterSign L t pk sigs p1) = allsigned"
  unfolding afterSign_def Let_def by simp

lemma submit_step:
  assumes "txs s tid = Some t"
  shows "\<exists>t'. txs (snd (submitSignature L s tid2 pk sigs)) tid = Some t' \<and>
           (status t' = status t \<or> tid2 = tid \<and> status t = pending \<and> status t' = allsigned)"
proof -
  obtain r s' where r: "submitSignature L s tid2 pk sigs = (r, s')"
    by (cases "submitSignature L s tid2 pk sigs")
  note shape = submit_shape [where L = L and s = s and tid = tid2 and pk = pk and sigs = sigs]
  show ?thesis
  proof (cases r)
    case (Inl e)
    with r shape assms show ?thesis by simp
  next
    case (Inr x)
    with r shape
    obtain t2 p1 where t2: "txs s tid2 = Some t2" "status t2 = pending"
       and s': "s' = s\<lparr>txs := (txs s)(tid2 \<mapsto> afterSign L t2 pk sigs p1)\<rparr>"
      by auto
    show ?thesis
    proof (cases "tid2 = tid")
      case True
      with t2 assms have "t2 = t" by simp
      with True r s' t2 status_afterSign [of L t pk sigs p1] show ?thesis by auto
    next
      case False
      with r s' assms show ?thesis by simp
    qed
  qed
qed

lemma cancel_step:
  assumes "txs s tid = Some t"
  shows "\<exists>t'. txs (snd (cancelTransaction s tid2)) tid = Some t' \<and>
           (status t' = status t \<or> tid2 = tid \<and> status t = pending \<and> status t' = cancelled)"
proof -
  obtain r s' where r: "cancelTransaction s tid2 = (r, s')"
    by (cases "cancelTransaction s tid2")
  note shape = cancel_shape [where s = s and tid = tid2]
  show ?thesis
  proof (cases r)
    case (Inl e)
    with r shape assms show ?thesis by simp
  next
    case (Inr x)
    with r shape
    obtain t2 where t2: "txs s tid2 = Some t2" "status t2 = pending"
       and s': "s' = s\<lparr>txs := (txs s)(tid2 \<mapsto> t2\<lparr>status := cancelled\<rparr>)\<rparr>"
      by auto
    with r assms show ?thesis by (cases "tid2 = tid") auto
  qed
qed

lemma broadcast_step:
  assumes "txs s tid = Some t"
  shows "\<exists>t'. txs (snd (broadcastTransaction W s tid2)) tid = Some t' \<and>
           (status t' = status t \<or> tid2 = tid \<and> status t = allsigned \<and> status t' = broadcasted)"
proof -
  obtain r s' where r: "broadcastTransaction W s tid2 = (r, s')"
    by (cases "broadcastTransaction W s tid2")
  note shape = broadcast_shape [where W = W and s = s and tid = tid2]
  show ?thesis
  proof (cases r)
    case (Inl e)
    with r shape assms show ?thesis by simp
  next
    case (Inr x)
    with r shape
    obtain t2 h where t2: "txs s tid2 = Some t2" "status t2 = allsigned"
       and s': "s' = s\<lparr>txs := (txs s)(tid2 \<mapsto> t2\<lparr>txHash := Some h, status := broadcasted,
                                         broadcastTime := Some (now W)\<rparr>)\<rparr>"
      by auto
    with r assms show ?thesis by (cases "tid2 = tid") auto
  qed
qed

lemma status_step:
  assumes "txs s tid = Some t"
  shows "\<exists>t'. txs (snd (getTransactionStatus W s tid2)) tid = Some t' \<and>
           (status t' = status t \<or> tid2 = tid \<and> status t = broadcasted \<and> status t' = finished)"
proof -
  obtain r s' where r: "getTransactionStatus W s tid2 = (r, s')"
    by (cases "getTransactionStatus W s tid2")
  note shape = status_shape [where W = W and s = s and tid = tid2]
  show ?thesis
  proof (cases r)
    case (Inl e)
    with r shape assms show ?thesis by simp
  next
    case (Inr x)
    with r shape
    obtain t2 where t2: "txs s tid2 = Some t2"
       and s': "s' = s \<or> (status t2 = broadcasted \<and>
                  s' = s\<lparr>txs := (txs s)(tid2 \<mapsto> t2\<lparr>status := finished\<rparr>)\<rparr>)"
      by auto
    with r assms show ?thesis by (cases "tid2 = tid") auto
  qed
qed

lemma names_current:
  "sublist (statusString st) (c @ statusString st)"
  by simp

lemma names_pending_submit:
  "sublist (statusString pending)
     (''Transaction is not in pending_signatures state. Current: '' @ x)"
  unfolding sublist_def
  by (rule exI [of _ "''Transaction is not in ''"], rule exI [of _ "'' state. Current: '' @ x"]) simp

lemma names_pending_cancel:
  "sublist (statusString pending)
     (''Transaction can only be cancelled if status is pending_signatures. Current: '' @ x)"
  unfolding sublist_def
  by (rule exI [of _ "''Transaction can only be cancelled if status is ''"], rule exI [of _ "''. Current: '' @ x"]) simp

lemma names_cancelled_cancel:
  "sublist (statusString cancelled)
     (''Transaction can only be cancelled if status is pending_signatures. Current: '' @ x)"
  unfolding sublist_def
  by (rule exI [of _ "''Transaction can only be ''"], rule exI [of _ "'' if status is pending_signatures. Current: '' @ x"]) simp

text \<open>
  C2, as the code has it. For a stored transaction, a call of \<^verbatim>\<open>submitSignature\<close>,
  \<^verbatim>\<open>cancelTransaction\<close>, \<^verbatim>\<open>broadcastTransaction\<close> or \<^verbatim>\<open>getTransactionStatus\<close>,
  on this or on any other transaction id, leaves its status as it is or takes it from
  pending to all-signed (only \<^verbatim>\<open>submitSignature\<close>), from pending to cancelled (only
  \<^verbatim>\<open>cancelTransaction\<close>), from all-signed to broadcasted (only
  \<^verbatim>\<open>broadcastTransaction\<close>) or from broadcasted to confirmed (only
  \<^verbatim>\<open>getTransactionStatus\<close>); \<^verbatim>\<open>createMultisigWallet\<close> leaves every stored
  transaction as it is. \<^verbatim>\<open>submitSignature\<close> with a non-empty public key and
  \<^verbatim>\<open>cancelTransaction\<close> outside pending, and \<^verbatim>\<open>broadcastTransaction\<close> outside
  all-signed, fail and write nothing. The message of each of these three errors names
  the current status; those of \<^verbatim>\<open>submitSignature\<close> and \<^verbatim>\<open>cancelTransaction\<close> also
  name the status they require, pending, and that of \<^verbatim>\<open>cancelTransaction\<close> the
  status it asks for, cancelled. \<^verbatim>\<open>getTransactionStatus\<close> does not fail on the
  status: outside broadcasted it returns the stored summary and writes nothing.
\<close>

theorem status_transitions:
  assumes "txs s tid = Some t"
  shows
   "(status t \<noteq> pending \<longrightarrow> pk \<noteq> [] \<longrightarrow>
       submitSignature L s tid pk sigs = (Inl (NotPendingSignatures (status t)), s)) \<and>
    (status t \<noteq> pending \<longrightarrow> cancelTransaction s tid = (Inl (CancelNotPending (status t)), s)) \<and>
    (status t \<noteq> allsigned \<longrightarrow> broadcastTransaction W s tid = (Inl (NotComplete (status t)), s)) \<and>
    (status t \<noteq> broadcasted \<longrightarrow> getTransactionStatus W s tid = (Inr (statusSummary t), s)) \<and>
    (status t = pending \<longrightarrow>
       cancelTransaction s tid =
         (Inr (transactionId t, cancelled), s\<lparr>txs := (txs s)(tid \<mapsto> t\<lparr>status := cancelled\<rparr>)\<rparr>)) \<and>
    (status t = allsigned \<longrightarrow> sendrawtransaction W (signedTransaction t) = Some h \<longrightarrow> h \<noteq> [] \<longrightarrow>
       snd (broadcastTransaction W s tid) =
         s\<lparr>txs := (txs s)(tid \<mapsto> t\<lparr>txHash := Some h, status := broadcasted,
                                     broadcastTime := Some (now W)\<rparr>)\<rparr>) \<and>
    (\<exists>t'. txs (snd (submitSignature L s tid2 pk sigs)) tid = Some t' \<and>
           (status t' = status t \<or> tid2 = tid \<and> status t = pending \<and> status t' = allsigned)) \<and>
    (\<exists>t'. txs (snd (cancelTransaction s tid2)) tid = Some t' \<and>
           (status t' = status t \<or> tid2 = tid \<and> status t = pending \<and> status t' = cancelled)) \<and>
    (\<exists>t'. txs (snd (broadcastTransaction W s tid2)) tid = Some t' \<and>
           (status t' = status t \<or> tid2 = tid \<and> status t = allsigned \<and> status t' = broadcasted)) \<and>
    (\<exists>t'. txs (snd (getTransactionStatus W s tid2)) tid = Some t' \<and>
           (status t' = status t \<or> tid2 = tid \<and> status t = broadcasted \<and> status t' = finished)) \<and>
    txs (snd (createMultisigWallet L W s cp)) tid = Some t \<and>
    (\<exists>m. stateErrorText (NotPendingSignatures (status t)) = Some m \<and>
          sublist (statusString (status t)) m \<and> sublist (statusString pending) m) \<and>
    (\<exists>m. stateErrorText (CancelNotPending (status t)) = Some m \<and>
          sublist (statusString (status t)) m \<and> sublist (statusString pending) m \<and>
          sublist (statusString cancelled) m) \<and>
    (\<exists>m. stateErrorText (NotComplete (status t)) = Some m \<and>
          sublist (statusString (status t)) m)"
proof -
  have a: "status t \<noteq> pending \<longrightarrow> pk \<noteq> [] \<longrightarrow>
       submitSignature L s tid pk sigs = (Inl (NotPendingSignatures (status t)), s)"
    unfolding submitSignature_def using assms by simp
  have b: "status t \<noteq> pending \<longrightarrow> cancelTransaction s tid = (Inl (CancelNotPending (status t)), s)"
    unfolding cancelTransaction_def using assms by simp
  have c: "status t \<noteq> allsigned \<longrightarrow> broadcastTransaction W s tid = (Inl (NotComplete (status t)), s)"
    unfolding broadcastTransaction_def using assms by simp
  have d: "status t \<noteq> broadcasted \<longrightarrow> getTransactionStatus W s tid = (Inr (statusSummary t), s)"
    unfolding getTransactionStatus_def using assms by simp
  have e: "status t = pending \<longrightarrow>
       cancelTransaction s tid =
         (Inr (transactionId t, cancelled), s\<lparr>txs := (txs s)(tid \<mapsto> t\<lparr>status := cancelled\<rparr>)\<rparr>)"
    unfolding cancelTransaction_def Let_def using assms by simp
  have f: "status t = allsigned \<longrightarrow> sendrawtransaction W (signedTransaction t) = Some h \<longrightarrow> h \<noteq> [] \<longrightarrow>
       snd (broadcastTransaction W s tid) =
         s\<lparr>txs := (txs s)(tid \<mapsto> t\<lparr>txHash := Some h, status := broadcasted,
                                     broadcastTime := Some (now W)\<rparr>)\<rparr>"
    unfolding broadcastTransaction_def utils_broadcastTransaction_def Let_def using assms by simp
  have g: "txs (snd (createMultisigWallet L W s cp)) tid = Some t"
    using create_shape [where L = L and W = W and s = s and p = cp] assms
    by (auto split: prod.splits sum.splits)
  have m1: "\<exists>m. stateErrorText (NotPendingSignatures (status t)) = Some m \<and>
          sublist (statusString (status t)) m \<and> sublist (statusString pending) m"
    by (rule exI, intro conjI, rule stateErrorText.simps, rule names_current,
        rule names_pending_submit)
  have m2: "\<exists>m. stateErrorText (CancelNotPending (status t)) = Some m \<and>
          sublist (statusString (status t)) m \<and> sublist (statusString pending) m \<and>
          sublist (statusString cancelled) m"
    by (rule exI, intro conjI, rule stateErrorText.simps, rule names_current,
        rule names_pending_cancel, rule names_cancelled_cancel)
  have m3: "\<exists>m. stateErrorText (NotComplete (status t)) = Some m \<and>
          sublist (statusString (status t)) m"
    by (rule exI, intro conjI, rule stateErrorText.simps, rule names_current)
  from a b c d e f g m1 m2 m3
    submit_step [OF assms, of L tid2 pk sigs] cancel_step [OF assms, of tid2]
    broadcast_step [OF assms, of W tid2] status_step [OF assms, of W tid2]
  show ?thesis by (intro conjI)
qed

theorem status_transitions_witness:
  "txs demoStore4 ''AB'' = Some demoTx4 \<and> status demoTx4 = allsigned \<and>
   submitSignature demoLibs demoStore4 ''AB'' ''C'' [''sigC''] =
     (Inl (NotPendingSignatures allsigned), demoStore4) \<and>
   cancelTransaction demoStore4 ''AB'' = (Inl (CancelNotPending allsigned), demoStore4) \<and>
   getTransactionStatus demoWorld demoStore4 ''AB'' = (Inr (statusSummary demoTx4), demoStore4) \<and>
   snd (broadcastTransaction demoWorld demoStore4 ''AB'') = demoStore5 \<and>
   txs demoStore2 ''AB'' = Some demoTx \<and> status demoTx = pending \<and>
   broadcastTransaction demoWorld demoStore2 ''AB'' = (Inl (NotComplete pending), demoStore2) \<and>
   fst (cancelTransaction demoStore2 ''AB'') = Inr (''AB'', cancelled) \<and>
   stateErrorText (CancelNotPending allsigned) =
     Some (''Transaction can only be cancelled if status is pending_signatures. Current: '' @
           ''finished_signatures'')"
  using status_transitions [OF demoStore4_tx, where pk = "''C''" and L = demoLibs
          and sigs = "[''sigC'']" and W = demoWorld and h = "''txid''" and ?tid2.0 = "''AB''"]
    status_transitions [OF demoStore2_tx, where pk = "''C''" and L = demoLibs
          and sigs = "[''sigC'']" and W = demoWorld and h = "''txid''" and ?tid2.0 = "''AB''"]
  by (simp add: demoStore4_tx demoStore2_tx demoTx4_facts demoTx_facts demoWorld_simps demo_broadcast)

lemma demo_cancel_pending:
  "cancelTransaction demoStore2 ''AB'' =
     (Inr (''AB'', cancelled), demoStore2\<lparr>txs := (txs demoStore2)(''AB'' \<mapsto> demoTx\<lparr>status := cancelled\<rparr>)\<rparr>)"
  by (simp add: cancelTransaction_def demoStore2_tx demoTx_facts Let_def)

lemma demo_submit_cancelled:
  "submitSignature demoLibs (snd (cancelTransaction demoStore2 ''AB'')) ''AB'' ''A'' [''sigA''] =
     (Inl (NotPendingSignatures cancelled), snd (cancelTransaction demoStore2 ''AB''))"
  by (simp add: demo_cancel_pending submitSignature_def)

lemma submit_text_cancelled:
  "stateErrorText (NotPendingSignatures cancelled) =
     Some ''Transaction is not in pending_signatures state. Current: cancelled''"
  "\<not> sublist (statusString allsigned)
       ''Transaction is not in pending_signatures state. Current: cancelled''"
  by code_simp+

lemma broadcast_text_pending:
  "\<not> sublist (statusString broadcasted)
       ''Transaction is not complete. Current status: pending_signatures''"
  "\<not> sublist (statusString allsigned)
       ''Transaction is not complete. Current status: pending_signatures''"
  by code_simp+

text \<open>
  C2, as stated, fails in four places. It asks every operation attempted in another
  status to fail: on a pending transaction \<^verbatim>\<open>getTransactionStatus\<close> succeeds. It
  asks the failure to be the error on the status: on an all-signed transaction
  \<^verbatim>\<open>submitSignature\<close> with the empty public key fails on the test of its argument,
  before it reads the status. It allows four transitions only:
  \<^verbatim>\<open>initiateTransaction\<close> stores its record under the hash of the template without
  looking for a record that is there, so the same request made again takes an
  all-signed transaction back to pending and drops its signatures. It asks the error to
  name the requested state: the message of \<^verbatim>\<open>broadcastTransaction\<close> on a pending
  transaction names neither broadcasted, the status asked for, nor all-signed, the
  status required, and the message of \<^verbatim>\<open>submitSignature\<close> on a cancelled
  transaction does not name all-signed, the status that signing leads to.
\<close>

theorem illegal_paths_counterexample:
  "txs demoStore2 ''AB'' = Some demoTx \<and> status demoTx = pending \<and>
   getTransactionStatus demoWorld demoStore2 ''AB'' = (Inr (statusSummary demoTx), demoStore2) \<and>
   txs demoStore4 ''AB'' = Some demoTx4 \<and> status demoTx4 = allsigned \<and>
   submitSignature demoLibs demoStore4 ''AB'' [] [''sigC''] = (Inl PublicKeyEmpty, demoStore4) \<and>
   initiateTransaction demoLibs demoWorld demoStore4 ''AB'' demoInit = (Inr demoTx, demoStore2) \<and>
   broadcastTransaction demoWorld demoStore2 ''AB'' = (Inl (NotComplete pending), demoStore2) \<and>
   stateErrorText (NotComplete pending) =
     Some ''Transaction is not complete. Current status: pending_signatures'' \<and>
   \<not> sublist (statusString broadcasted)
       ''Transaction is not complete. Current status: pending_signatures'' \<and>
   \<not> sublist (statusString allsigned)
       ''Transaction is not complete. Current status: pending_signatures'' \<and>
   submitSignature demoLibs (snd (cancelTransaction demoStore2 ''AB'')) ''AB'' ''A'' [''sigA''] =
     (Inl (NotPendingSignatures cancelled), snd (cancelTransaction demoStore2 ''AB'')) \<and>
   stateErrorText (NotPendingSignatures cancelled) =
     Some ''Transaction is not in pending_signatures state. Current: cancelled'' \<and>
   \<not> sublist (statusString allsigned)
       ''Transaction is not in pending_signatures state. Current: cancelled''"
proof -
  have i: "initiateTransaction demoLibs demoWorld demoStore4 ''AB'' demoInit = (Inr demoTx, demoStore2)"
    using demo_initiate_again [OF demoStore4_wallet]
    by (simp add: demoStore4_def demoStore2_def)
  have q: "getTransactionStatus demoWorld demoStore2 ''AB'' = (Inr (statusSummary demoTx), demoStore2)"
    by (simp add: getTransactionStatus_def demoStore2_tx demoTx_facts)
  have e: "submitSignature demoLibs demoStore4 ''AB'' [] [''sigC''] = (Inl PublicKeyEmpty, demoStore4)"
    by (simp add: submitSignature_def)
  have b: "broadcastTransaction demoWorld demoStore2 ''AB'' = (Inl (NotComplete pending), demoStore2)"
    by (simp add: broadcastTransaction_def demoStore2_tx demoTx_facts)
  from i q e b broadcast_text_pending demo_submit_cancelled submit_text_cancelled show ?thesis
    by (simp add: demoStore2_tx demoStore4_tx demoTx_facts demoTx4_facts del: statusString.simps)
       simp
qed

section \<open>Fund sufficiency\<close>

lemma roundHalfEven_int: "roundHalfEven (of_int m) = m"
  by (simp add: roundHalfEven_def)

lemma roundToDouble_int:
  assumes "0 \<le> z" and "z < 2 ^ 53"
  shows "roundToDouble (of_int z) = of_int z"
proof (cases "z = 0")
  case True
  then show ?thesis by (simp add: roundToDouble_def)
next
  case False
  with assms have pos: "0 < z" by simp
  define b where "b = bitlen z"
  from assms(2) have "b \<le> 53"
    unfolding b_def using bitlen_le_iff_power [of z 53] by simp
  moreover from pos have "1 \<le> b"
    unfolding b_def using bitlen_ge_iff_power [of 1 z] by simp
  ultimately have k: "max (b - 1 - 52) (- 1074) = b - 53" by simp
  define n where "n = nat (53 - b)"
  have p: "pow2 (b - 53) = 1 / 2 ^ n"
    using \<open>b \<le> 53\<close> by (auto simp: pow2_def n_def)
  have fl: "floorLog2 \<bar>of_int z\<bar> = b - 1"
    using pos by (simp add: floorLog2_def b_def)
  have q: "\<bar>rat_of_int z\<bar> / (1 / 2 ^ n) = of_int (z * 2 ^ n)"
    using pos by simp
  have "roundToDouble (of_int z) = sgn (rat_of_int z) * of_int (z * 2 ^ n) * (1 / 2 ^ n)"
    using False unfolding roundToDouble_def Let_def fl k p q roundHalfEven_int by simp
  also have "\<dots> = of_int z" using pos by simp
  finally show ?thesis .
qed

lemma estimatedFeeOf_int:
  assumes "0 \<le> v * n" and "v * n < 2 ^ 53"
  shows "estimatedFeeOf v (Some (of_int n)) = v * n"
proof -
  have "rat_of_int v * of_int n = of_int (v * n)" by simp
  then have "estimatedFeeOf v (Some (of_int n)) = \<lceil>roundToDouble (rat_of_int (v * n))\<rceil>"
    unfolding estimatedFeeOf_def by simp
  also have "\<dots> = \<lceil>rat_of_int (v * n)\<rceil>"
    using roundToDouble_int [OF assms] by simp
  also have "\<dots> = v * n" by (rule ceiling_of_int)
  finally show ?thesis .
qed

lemma estimatedFeeOf_default:
  assumes "0 \<le> v" and "v < 2 ^ 53"
  shows "estimatedFeeOf v None = v"
  unfolding estimatedFeeOf_def using roundToDouble_int [OF assms] by simp

lemma outputs_addInputs: "addInputs L p us = Some p' \<Longrightarrow> outputs p' = outputs p"
proof (induction us arbitrary: p)
  case Nil
  then show ?case by simp
next
  case (Cons u us)
  then show ?case
    by (auto simp: addMultiSigInput_def split: if_splits)
qed

lemma outputs_initialized:
  "psbtInitializeMultiSig L newPsbt k keys = Some p0 \<Longrightarrow> outputs p0 = []"
  by (auto simp: psbtInitializeMultiSig_def newPsbt_def split: option.splits)

text \<open>
  C3, as the code has it. Take an \<^verbatim>\<open>initiateTransaction\<close> call with a recipient, a
  positive amount of whole satoshis and a positive (or default) fee rate on an existing
  wallet, for which the node returns a non-empty list of inputs totalling \<open>X\<close>
  satoshis, the library builds the template with these inputs, and the size estimate is
  \<open>v\<close>. The fee is \<^verbatim>\<open>Math.ceil\<close> of the product of \<open>v\<close> and the fee rate as a
  double computes it: the least integer not below the double nearest to the product
  (ties to even), which is \<open>v\<close> times the fee rate itself when the fee rate is a whole
  number, or absent and so 1, and the product is below \<open>2^53\<close>. If amount + fee
  exceeds \<open>X\<close> the call fails with the insufficient-funds error and the table is
  unchanged. If amount + fee equals \<open>X\<close> and the library accepts the recipient output,
  the call stores a pending transaction whose only output is the recipient's. If amount
  + fee is below \<open>X\<close> and the library accepts both outputs, the call stores a pending
  transaction with the recipient output followed by a change output to the wallet's own
  address of \<open>X\<close> - amount - fee.
\<close>

theorem fund_sufficiency:
  assumes "ip_recipientAddress p \<noteq> []" and "0 < ip_amount p"
    and "\<forall>r. ip_feeRate p = Some r \<longrightarrow> 0 < r"
    and "wallets s wid = Some w"
    and "getUTXOsBlockbook W 0 (w_address w) = Inr us" and "us \<noteq> []"
    and "psbtInitializeMultiSig L newPsbt (w_m w) (map publicKey (w_participants w)) = Some p0"
    and "addInputs L p0 us = Some p1"
    and "estimateVirtualSize L W 1 s wid (ip_recipientAddress p) = Inr v"
    and "X = sum_list (map satoshis us)"
    and "fee = \<lceil>roundToDouble (of_int v * (case ip_feeRate p of None \<Rightarrow> 1 | Some r \<Rightarrow> r))\<rceil>"
  shows
   "(X < ip_amount p + fee \<longrightarrow>
       initiateTransaction L W s wid p = (Inl (InsufficientFunds X (ip_amount p + fee)), s)) \<and>
    (X = ip_amount p + fee \<longrightarrow>
       AddOutput L p1 (ip_recipientAddress p) (ip_amount p) = Some p2 \<longrightarrow>
       customHash L (toBuffer L p2) = Inr tid \<longrightarrow>
       (\<exists>t. initiateTransaction L W s wid p = (Inr t, s\<lparr>txs := (txs s)(tid \<mapsto> t)\<rparr>) \<and>
            status t = pending \<and>
            outputs (psbt t) = [(ip_recipientAddress p, ip_amount p)])) \<and>
    (ip_amount p + fee < X \<longrightarrow>
       AddOutput L p1 (ip_recipientAddress p) (ip_amount p) = Some p2 \<longrightarrow>
       AddOutput L p2 (w_address w) (X - ip_amount p - fee) = Some p3 \<longrightarrow>
       customHash L (toBuffer L p3) = Inr tid' \<longrightarrow>
       (\<exists>t. initiateTransaction L W s wid p = (Inr t, s\<lparr>txs := (txs s)(tid' \<mapsto> t)\<rparr>) \<and>
            status t = pending \<and>
            outputs (psbt t) = [(ip_recipientAddress p, ip_amount p),
                                (w_address w, X - ip_amount p - fee)])) \<and>
    (ip_feeRate p = None \<longrightarrow> 0 \<le> v \<longrightarrow> v < 2 ^ 53 \<longrightarrow> fee = v) \<and>
    (ip_feeRate p = Some (of_int n) \<longrightarrow> 0 \<le> v * n \<longrightarrow> v * n < 2 ^ 53 \<longrightarrow> fee = v * n)"
proof -
  from assms(3) have fr: "\<not> (case ip_feeRate p of None \<Rightarrow> False | Some r \<Rightarrow> r \<le> 0)"
    by (auto split: option.splits)
  from assms(11) have fee: "fee = estimatedFeeOf v (ip_feeRate p)"
    by (simp add: estimatedFeeOf_def)
  from assms(7,8) have o1: "outputs p1 = []"
    by (simp add: outputs_addInputs outputs_initialized)
  note pre = assms(1,2,4-9) fr
  have a: "initiateTransaction L W s wid p = (Inl (InsufficientFunds X (ip_amount p + fee)), s)"
    if "X < ip_amount p + fee"
    unfolding initiateTransaction_def Let_def using pre that assms(10) fee by simp
  have b: "\<exists>t. initiateTransaction L W s wid p = (Inr t, s\<lparr>txs := (txs s)(tid \<mapsto> t)\<rparr>) \<and>
            status t = pending \<and> outputs (psbt t) = [(ip_recipientAddress p, ip_amount p)]"
    if h: "X = ip_amount p + fee" "AddOutput L p1 (ip_recipientAddress p) (ip_amount p) = Some p2"
       "customHash L (toBuffer L p2) = Inr tid"
  proof -
    from h(2) o1 have "outputs p2 = [(ip_recipientAddress p, ip_amount p)]"
      by (auto simp: AddOutput_def split: if_splits)
    then show ?thesis
      unfolding initiateTransaction_def Let_def using pre h assms(10) fee by simp
  qed
  have c: "\<exists>t. initiateTransaction L W s wid p = (Inr t, s\<lparr>txs := (txs s)(tid' \<mapsto> t)\<rparr>) \<and>
            status t = pending \<and>
            outputs (psbt t) = [(ip_recipientAddress p, ip_amount p),
                                (w_address w, X - ip_amount p - fee)]"
    if h: "ip_amount p + fee < X" "AddOutput L p1 (ip_recipientAddress p) (ip_amount p) = Some p2"
       "AddOutput L p2 (w_address w) (X - ip_amount p - fee) = Some p3"
       "customHash L (toBuffer L p3) = Inr tid'"
  proof -
    from h(2) o1 have "outputs p2 = [(ip_recipientAddress p, ip_amount p)]"
      by (auto simp: AddOutput_def split: if_splits)
    with h(3) have "outputs p3 = [(ip_recipientAddress p, ip_amount p),
                                (w_address w, X - ip_amount p - fee)]"
      by (auto simp: AddOutput_def split: if_splits)
    then show ?thesis
      unfolding initiateTransaction_def Let_def using pre h assms(10) fee by simp
  qed
  have d: "fee = v" if "ip_feeRate p = None" "0 \<le> v" "v < 2 ^ 53"
    using that fee estimatedFeeOf_default by simp
  have e: "fee = v * n" if "ip_feeRate p = Some (of_int n)" "0 \<le> v * n" "v * n < 2 ^ 53"
    using that fee estimatedFeeOf_int by simp
  from a b c d e show ?thesis by blast
qed

theorem fund_sufficiency_witness:
  "wallets demoStore1 ''AB'' = Some demoWallet \<and>
   getUTXOsBlockbook demoWorld 0 (w_address demoWallet) =
     Inr [\<lparr>hash = ''f0'', vout = 0, satoshis = 10000000\<rparr>] \<and>
   estimateVirtualSize demoLibs demoWorld 1 demoStore1 ''AB'' ''dest'' = Inr 250 \<and>
   \<lceil>roundToDouble (of_int 250 * double_1_1)\<rceil> = 275 \<and>
   initiateTransaction demoLibs demoWorld demoStore1 ''AB'' (demoInitExact\<lparr>ip_amount := 10000000\<rparr>) =
     (Inl (InsufficientFunds 10000000 10000275), demoStore1) \<and>
   (\<exists>t. initiateTransaction demoLibs demoWorld demoStore1 ''AB'' demoInitExact =
          (Inr t, demoStore1\<lparr>txs := (txs demoStore1)(''AB'' \<mapsto> t)\<rparr>) \<and>
        status t = pending \<and> outputs (psbt t) = [(''dest'', 9999725)]) \<and>
   (\<exists>t. initiateTransaction demoLibs demoWorld demoStore1 ''AB'' (demoInitExact\<lparr>ip_amount := 100000\<rparr>) =
          (Inr t, demoStore1\<lparr>txs := (txs demoStore1)(''AB'' \<mapsto> t)\<rparr>) \<and>
        status t = pending \<and> outputs (psbt t) = [(''dest'', 100000), (''addr'', 9899725)]) \<and>
   (\<exists>t. initiateTransaction demoLibs demoWorld demoStore1 ''AB'' demoInit =
          (Inr t, demoStore1\<lparr>txs := (txs demoStore1)(''AB'' \<mapsto> t)\<rparr>) \<and>
        status t = pending \<and> outputs (psbt t) = [(''dest'', 100000), (''addr'', 9897500)])"
proof -
  let ?u = "\<lparr>hash = ''f0'', vout = 0, satoshis = 10000000\<rparr>"
  have X: "(10000000::int) = sum_list (map satoshis [?u])" by simp
  have f: "\<lceil>roundToDouble (of_int 250 * double_1_1)\<rceil> = 275"
    using demo_fee_rounded by (simp add: estimatedFeeOf_def)
  have inst: "\<And>a p2 p3 tid tid'. 0 < a \<Longrightarrow>
     (10000000 < a + 275 \<longrightarrow>
        initiateTransaction demoLibs demoWorld demoStore1 ''AB'' (demoInitExact\<lparr>ip_amount := a\<rparr>) =
          (Inl (InsufficientFunds 10000000 (a + 275)), demoStore1)) \<and>
     (10000000 = a + 275 \<longrightarrow>
        AddOutput demoLibs demoPsbt1 ''dest'' a = Some p2 \<longrightarrow>
        customHash demoLibs (toBuffer demoLibs p2) = Inr tid \<longrightarrow>
        (\<exists>t. initiateTransaction demoLibs demoWorld demoStore1 ''AB'' (demoInitExact\<lparr>ip_amount := a\<rparr>) =
               (Inr t, demoStore1\<lparr>txs := (txs demoStore1)(tid \<mapsto> t)\<rparr>) \<and>
             status t = pending \<and> outputs (psbt t) = [(''dest'', a)])) \<and>
     (a + 275 < 10000000 \<longrightarrow>
        AddOutput demoLibs demoPsbt1 ''dest'' a = Some p2 \<longrightarrow>
        AddOutput demoLibs p2 ''addr'' (10000000 - a - 275) = Some p3 \<longrightarrow>
        customHash demoLibs (toBuffer demoLibs p3) = Inr tid' \<longrightarrow>
        (\<exists>t. initiateTransaction demoLibs demoWorld demoStore1 ''AB'' (demoInitExact\<lparr>ip_amount := a\<rparr>) =
               (Inr t, demoStore1\<lparr>txs := (txs demoStore1)(tid' \<mapsto> t)\<rparr>) \<and>
             status t = pending \<and> outputs (psbt t) = [(''dest'', a), (''addr'', 10000000 - a - 275)]))"
  proof -
    fix a :: int and p2 p3 tid tid'
    assume a: "0 < a"
    have r: "ip_recipientAddress (demoInitExact\<lparr>ip_amount := a\<rparr>) \<noteq> []"
      and am: "0 < ip_amount (demoInitExact\<lparr>ip_amount := a\<rparr>)"
      and fr: "\<forall>r. ip_feeRate (demoInitExact\<lparr>ip_amount := a\<rparr>) = Some r \<longrightarrow> 0 < r"
      using a by (simp_all add: demoInitExact_def double_1_1_def)
    have fee: "275 = \<lceil>roundToDouble (of_int 250 *
        (case ip_feeRate (demoInitExact\<lparr>ip_amount := a\<rparr>) of None \<Rightarrow> 1 | Some r \<Rightarrow> r))\<rceil>"
      using f by (simp add: demoInitExact_def)
    show "?thesis a p2 p3 tid tid'"
      using fund_sufficiency [where p = "demoInitExact\<lparr>ip_amount := a\<rparr>" and s = demoStore1
          and wid = "''AB''" and w = demoWallet and W = demoWorld and us = "[?u]"
          and L = demoLibs and ?p0.0 = "demoPsbt1\<lparr>inputs := []\<rparr>" and ?p1.0 = demoPsbt1
          and v = 250 and X = 10000000 and fee = 275 and ?p2.0 = p2 and ?p3.0 = p3
          and tid = tid and tid' = tid' and n = 0,
          OF r am fr demoStore1_wallet demo_utxos _ demo_init_psbt demo_addInputs
             demo_vsize [OF demoStore1_wallet] X fee]
      by (simp add: demoInitExact_def demoWallet_def)
  qed
  have c1: "initiateTransaction demoLibs demoWorld demoStore1 ''AB'' (demoInitExact\<lparr>ip_amount := 10000000\<rparr>) =
     (Inl (InsufficientFunds 10000000 10000275), demoStore1)"
    using inst [of 10000000] by simp
  have c2: "\<exists>t. initiateTransaction demoLibs demoWorld demoStore1 ''AB'' (demoInitExact\<lparr>ip_amount := 9999725\<rparr>) =
          (Inr t, demoStore1\<lparr>txs := (txs demoStore1)(''AB'' \<mapsto> t)\<rparr>) \<and>
        status t = pending \<and> outputs (psbt t) = [(''dest'', 9999725)]"
    using inst [of 9999725 "demoPsbt1\<lparr>outputs := outputs demoPsbt1 @ [(''dest'', 9999725)]\<rparr>" "''AB''"]
    by (simp add: demo_AddOutput demo_customHash)
  have c3: "\<exists>t. initiateTransaction demoLibs demoWorld demoStore1 ''AB'' (demoInitExact\<lparr>ip_amount := 100000\<rparr>) =
          (Inr t, demoStore1\<lparr>txs := (txs demoStore1)(''AB'' \<mapsto> t)\<rparr>) \<and>
        status t = pending \<and> outputs (psbt t) = [(''dest'', 100000), (''addr'', 9899725)]"
    using inst [of 100000 "demoPsbt1\<lparr>outputs := outputs demoPsbt1 @ [(''dest'', 100000)]\<rparr>" _
        "demoPsbt1\<lparr>outputs := (outputs demoPsbt1 @ [(''dest'', 100000)]) @ [(''addr'', 9899725)]\<rparr>" "''AB''"]
    by (simp add: demo_AddOutput demo_customHash)
  have fee10: "2500 = \<lceil>roundToDouble (of_int 250 *
        (case ip_feeRate demoInit of None \<Rightarrow> 1 | Some r \<Rightarrow> r))\<rceil>"
    using demo_fee by (simp add: estimatedFeeOf_def demoInit_def)
  have c4: "\<exists>t. initiateTransaction demoLibs demoWorld demoStore1 ''AB'' demoInit =
          (Inr t, demoStore1\<lparr>txs := (txs demoStore1)(''AB'' \<mapsto> t)\<rparr>) \<and>
        status t = pending \<and> outputs (psbt t) = [(''dest'', 100000), (''addr'', 9897500)]"
    using fund_sufficiency [where p = demoInit and s = demoStore1
          and wid = "''AB''" and w = demoWallet and W = demoWorld and us = "[?u]"
          and L = demoLibs and ?p0.0 = "demoPsbt1\<lparr>inputs := []\<rparr>" and ?p1.0 = demoPsbt1
          and v = 250 and X = 10000000 and fee = 2500
          and ?p2.0 = "demoPsbt1\<lparr>outputs := outputs demoPsbt1 @ [(''dest'', 100000)]\<rparr>"
          and ?p3.0 = "demoPsbt1\<lparr>outputs := (outputs demoPsbt1 @ [(''dest'', 100000)]) @ [(''addr'', 9897500)]\<rparr>"
          and tid' = "''AB''" and n = 10,
          OF _ _ _ demoStore1_wallet demo_utxos _ demo_init_psbt demo_addInputs
             demo_vsize [OF demoStore1_wallet] X fee10]
    by (simp add: demoInit_def demoWallet_def demo_AddOutput demo_customHash)
  have d: "demoInitExact\<lparr>ip_amount := 9999725\<rparr> = demoInitExact" by (simp add: demoInitExact_def)
  from c1 c2 c3 c4 f show ?thesis
    by (simp add: d demoStore1_wallet demo_utxos demo_vsize)
qed

lemma demo_second_scan_fails:
  "getUTXOsBlockbook flakyWorld 0 ''addr'' = Inr [\<lparr>hash = ''f0'', vout = 0, satoshis = 10000000\<rparr>]"
  "estimateVirtualSize demoLibs flakyWorld 1 demoStore1 ''AB'' ''dest'' =
     Inl (CollaboratorFailed ''scantxoutset'')"
  "initiateTransaction demoLibs flakyWorld demoStore1 ''AB'' demoInit =
     (Inl (CollaboratorFailed ''scantxoutset''), demoStore1)"
proof -
  show a: "getUTXOsBlockbook flakyWorld 0 ''addr'' =
      Inr [\<lparr>hash = ''f0'', vout = 0, satoshis = 10000000\<rparr>]"
    using demo_utxos [of 0 "''addr''"]
    by (simp add: getUTXOsBlockbook_def getUTXOs_def flakyWorld_def)
  have b: "getUTXOsBlockbook flakyWorld 1 ''addr'' = Inl (CollaboratorFailed ''scantxoutset'')"
    by (simp add: getUTXOsBlockbook_def getUTXOs_def flakyWorld_def)
  show c: "estimateVirtualSize demoLibs flakyWorld 1 demoStore1 ''AB'' ''dest'' =
     Inl (CollaboratorFailed ''scantxoutset'')"
    using b by (simp add: estimateVirtualSize_def demoStore1_wallet demoLibs_simps demoWallet_def)
  show "initiateTransaction demoLibs flakyWorld demoStore1 ''AB'' demoInit =
     (Inl (CollaboratorFailed ''scantxoutset''), demoStore1)"
    using a c
    by (simp add: initiateTransaction_def demoInit_def demoStore1_wallet Let_def
          psbtInitializeMultiSig_def addMultiSigInput_def newPsbt_def demoWallet_def
          demoLibs_simps)
qed

lemma exact_ceilings:
  "\<lceil>of_int 250 * double_1_1\<rceil> = (276 :: int)"
  "roundToDouble (11 / 10) = double_1_1"
  "\<lceil>of_int 190 * (11 / 10 :: rat)\<rceil> = (209 :: int)"
  "estimatedFeeOf 190 (Some double_1_1) = 210"
  unfolding estimatedFeeOf_def by code_simp+

lemma double_1_1_pos: "\<not> double_1_1 \<le> 0"
  by (simp add: double_1_1_def)

lemma demo_initiate_exact:
  "initiateTransaction demoLibs demoWorld demoStore1 ''AB'' demoInitExact =
     (Inr (demoTx\<lparr>amount := 9999725, psbt := demoPsbt\<lparr>outputs := [(''dest'', 9999725)]\<rparr>\<rparr>),
      demoStore1\<lparr>txs := (txs demoStore1)(''AB'' \<mapsto>
        demoTx\<lparr>amount := 9999725, psbt := demoPsbt\<lparr>outputs := [(''dest'', 9999725)]\<rparr>\<rparr>)\<rparr>)"
  by (simp add: initiateTransaction_def demoInitExact_def demo_utxos demo_vsize demo_customHash Let_def
        demo_fee_rounded double_1_1_pos psbtInitializeMultiSig_def addMultiSigInput_def AddOutput_def
        newPsbt_def demoStore1_wallet demoWallet_def demoLibs_simps demoWorld_simps)
     (simp add: demoTx_def demoPsbt_def)

text \<open>
  C3, as stated, takes the fee to be the product of the size and the fee rate, rounded
  up. With one input of 10000000 satoshis, a size of 250 and the fee rate 1.1 (the
  double \<open>double_1_1\<close>, slightly above 11/10), the product rounded up is 276, so that
  the amount 9999725 with the fee exceeds the inputs by one satoshi; the call succeeds,
  with the recipient output only, because the product as a double is 275 and the fee
  275. Reading the fee rate as the decimal 11/10 does not save the wording: for the
  size 190 the product 209 is whole, and the fee of the code is 210.
\<close>

theorem rounded_fee_counterexample:
  "wallets demoStore1 ''AB'' = Some demoWallet \<and>
   getUTXOsBlockbook demoWorld 0 (w_address demoWallet) =
     Inr [\<lparr>hash = ''f0'', vout = 0, satoshis = 10000000\<rparr>] \<and>
   estimateVirtualSize demoLibs demoWorld 1 demoStore1 ''AB'' ''dest'' = Inr 250 \<and>
   ip_feeRate demoInitExact = Some double_1_1 \<and> ip_amount demoInitExact = 9999725 \<and>
   \<lceil>of_int 250 * double_1_1\<rceil> = (276 :: int) \<and>
   (10000000 :: int) < 9999725 + 276 \<and>
   initiateTransaction demoLibs demoWorld demoStore1 ''AB'' demoInitExact =
     (Inr (demoTx\<lparr>amount := 9999725, psbt := demoPsbt\<lparr>outputs := [(''dest'', 9999725)]\<rparr>\<rparr>),
      demoStore1\<lparr>txs := (txs demoStore1)(''AB'' \<mapsto>
        demoTx\<lparr>amount := 9999725, psbt := demoPsbt\<lparr>outputs := [(''dest'', 9999725)]\<rparr>\<rparr>)\<rparr>) \<and>
   estimatedFeeOf 250 (Some double_1_1) = 275 \<and>
   roundToDouble (11 / 10) = double_1_1 \<and>
   \<lceil>of_int 190 * (11 / 10 :: rat)\<rceil> = (209 :: int) \<and>
   estimatedFeeOf 190 (Some double_1_1) = 210"
  using exact_ceilings demo_initiate_exact demo_fee_rounded demo_utxos [of 0 "w_address demoWallet"]
    demo_vsize [OF demoStore1_wallet, of 1 "''dest''"] demoStore1_wallet
  by (simp add: demoInitExact_def)

section \<open>Wallet creation\<close>

lemma createChecks_None_iff:
  "(createChecks p = None) =
     (isInteger (cp_m p) \<and> isInteger (cp_n p) \<and> 0 < cp_m p \<and> 0 < cp_n p \<and> cp_m p \<le> cp_n p \<and>
      of_nat (length (cp_participants p)) = cp_n p \<and>
      distinct (map pi_publicKey (cp_participants p)))"
proof -
  have "of_nat (length (cp_participants p)) = cp_n p \<Longrightarrow>
        (of_nat (length (remdups (map pi_publicKey (cp_participants p)))) = cp_n p) =
        distinct (map pi_publicKey (cp_participants p))"
  proof -
    assume "of_nat (length (cp_participants p)) = cp_n p"
    then have "(of_nat (length (remdups (map pi_publicKey (cp_participants p)))) = cp_n p) =
        (length (remdups (map pi_publicKey (cp_participants p))) =
         length (map pi_publicKey (cp_participants p)))"
      by (metis length_map of_nat_eq_iff)
    then show ?thesis by (metis length_map length_remdups_eq remdups_id_iff_distinct)
  qed
  then show ?thesis
    unfolding createChecks_def Let_def by (auto simp: not_le not_less)
qed

lemma createChecks_Some:
  "createChecks p = Some e \<Longrightarrow>
   e \<in> {MustBeIntegers, InvalidMofN,
         ExpectedParticipants (cp_n p) (length (cp_participants p)), DuplicatePublicKeys}"
  unfolding createChecks_def Let_def by (simp split: if_splits)

lemma create_rejected:
  "createChecks p = Some e \<Longrightarrow> createMultisigWallet L W s p = (Inl e, s)"
  unfolding createMultisigWallet_def by simp

lemma create_checked:
  "createChecks p = None \<Longrightarrow> fst (createMultisigWallet L W s p) = Inl e \<Longrightarrow>
   e = HashEncodeFailed \<or> e = CollaboratorFailed ''initializeMultiSig''"
  unfolding createMultisigWallet_def generateWalletId_def customHash_def Let_def
  by (simp split: option.splits sum.splits if_splits prod.splits)

text \<open>
  C6, as the code has it. \<^verbatim>\<open>createMultisigWallet\<close> fails with one of its four
  validation errors, leaving the table unchanged, exactly when \<open>m\<close> or \<open>n\<close> is not a
  positive integer, \<open>m\<close> exceeds \<open>n\<close>, the participants list does not have exactly
  \<open>n\<close> entries, or two participants share a public key; otherwise validation passes.
  The function puts no upper bound on \<open>n\<close>.
\<close>

theorem create_validation:
  "(\<exists>e. createMultisigWallet L W s p = (Inl e, s) \<and>
        e \<in> {MustBeIntegers, InvalidMofN,
              ExpectedParticipants (cp_n p) (length (cp_participants p)), DuplicatePublicKeys}) =
   (\<not> isInteger (cp_m p) \<or> \<not> isInteger (cp_n p) \<or> cp_m p \<le> 0 \<or> cp_n p \<le> 0 \<or>
    cp_n p < cp_m p \<or> of_nat (length (cp_participants p)) \<noteq> cp_n p \<or>
    \<not> distinct (map pi_publicKey (cp_participants p)))"
proof (cases "createChecks p")
  case None
  then have "\<not> (\<exists>e. createMultisigWallet L W s p = (Inl e, s) \<and>
        e \<in> {MustBeIntegers, InvalidMofN,
              ExpectedParticipants (cp_n p) (length (cp_participants p)), DuplicatePublicKeys})"
    using create_checked [of p L W s] by auto
  with None show ?thesis
    using createChecks_None_iff [of p] by (auto simp: not_le not_less)
next
  case (Some e)
  then have "\<exists>e. createMultisigWallet L W s p = (Inl e, s) \<and>
        e \<in> {MustBeIntegers, InvalidMofN,
              ExpectedParticipants (cp_n p) (length (cp_participants p)), DuplicatePublicKeys}"
    using create_rejected [of p e L W s] createChecks_Some [of p e] by blast
  with Some show ?thesis
    using createChecks_None_iff [of p] by (auto simp: not_le not_less)
qed

theorem create_validation_witness:
  "cp_n badParams < cp_m badParams \<and>
   createMultisigWallet demoLibs demoWorld emptyStore badParams = (Inl InvalidMofN, emptyStore)"
  using create_validation [of demoLibs demoWorld emptyStore badParams]
  by (simp add: badParams_def createMultisigWallet_def createChecks_def isInteger_def)

text \<open>
  C6, as stated, has \<open>n > 10\<close> rejected. A 1-of-11 request with eleven distinct keys
  passes the checks and the wallet is created.
\<close>

theorem eleven_participants_counterexample:
  "10 < cp_n elevenParams \<and> createChecks elevenParams = None \<and>
   map_sum id w_n (fst (createMultisigWallet demoLibs demoWorld emptyStore elevenParams)) = Inr 11"
  by (simp add: elevenParams_def createMultisigWallet_def createChecks_def isInteger_def
        demo_customHash generateWalletId_def demoLibs_simps Let_def)




















section \<open>Failures and persistence\<close>

lemma failed_unchanged:
  "isl (fst (initiateTransaction L W s wid ip)) \<Longrightarrow> snd (initiateTransaction L W s wid ip) = s"
  "isl (fst (submitSignature L s tid pk sigs)) \<Longrightarrow> snd (submitSignature L s tid pk sigs) = s"
  "isl (fst (cancelTransaction s tid)) \<Longrightarrow> snd (cancelTransaction s tid) = s"
  "isl (fst (broadcastTransaction W s tid)) \<Longrightarrow> snd (broadcastTransaction W s tid) = s"
  "isl (fst (getTransactionStatus W s tid)) \<Longrightarrow> snd (getTransactionStatus W s tid) = s"
  "isl (fst (createMultisigWallet L W s cp)) \<Longrightarrow>
     wallets (snd (createMultisigWallet L W s cp)) = wallets s \<and>
     txs (snd (createMultisigWallet L W s cp)) = txs s"
  using initiate_shape [where L = L and W = W and s = s and wid = wid and p = ip]
    submit_shape [where L = L and s = s and tid = tid and pk = pk and sigs = sigs]
    cancel_shape [where s = s and tid = tid]
    broadcast_shape [where W = W and s = s and tid = tid]
    status_shape [where W = W and s = s and tid = tid]
    create_shape [where L = L and W = W and s = s and p = cp]
  by (auto simp: isl_def split: prod.splits sum.splits)

text \<open>
  C8, as the code has it. \<^verbatim>\<open>initiateTransaction\<close>, \<^verbatim>\<open>submitSignature\<close>,
  \<^verbatim>\<open>cancelTransaction\<close>, \<^verbatim>\<open>broadcastTransaction\<close> and \<^verbatim>\<open>getTransactionStatus\<close>
  validate and compute, external calls included, before their only write: a call of
  theirs that fails leaves the whole table as it was, and a failing
  \<^verbatim>\<open>createMultisigWallet\<close> leaves every wallet and transaction record as it was. A
  failed lookup of the funding outputs, a signature the script library rejects and a
  failed broadcast surface as errors of the call. A failed confirmation lookup does not:
  \<^verbatim>\<open>getTransactionStatus\<close> then returns the stored summary and writes nothing.
\<close>

theorem writes_follow_computation:
  "(isl (fst (initiateTransaction L W s wid ip)) \<longrightarrow>
      snd (initiateTransaction L W s wid ip) = s) \<and>
   (isl (fst (submitSignature L s tid pk sigs)) \<longrightarrow>
      snd (submitSignature L s tid pk sigs) = s) \<and>
   (isl (fst (cancelTransaction s tid)) \<longrightarrow> snd (cancelTransaction s tid) = s) \<and>
   (isl (fst (broadcastTransaction W s tid)) \<longrightarrow> snd (broadcastTransaction W s tid) = s) \<and>
   (isl (fst (getTransactionStatus W s tid)) \<longrightarrow> snd (getTransactionStatus W s tid) = s) \<and>
   (isl (fst (createMultisigWallet L W s cp)) \<longrightarrow>
      wallets (snd (createMultisigWallet L W s cp)) = wallets s \<and>
      txs (snd (createMultisigWallet L W s cp)) = txs s) \<and>
   (ip_recipientAddress ip \<noteq> [] \<and> 0 < ip_amount ip \<and> (\<forall>r. ip_feeRate ip = Some r \<longrightarrow> 0 < r) \<and>
    wallets s wid = Some w \<and> scantxoutset W 0 (w_address w) = None \<longrightarrow>
      initiateTransaction L W s wid ip = (Inl (CollaboratorFailed ''scantxoutset''), s)) \<and>
   (txs s tid = Some t \<and> status t = pending \<and> pk \<noteq> [] \<and> wallets s (walletId t) = Some w' \<and>
    pk |\<notin>| fmdom (signatures t) \<and> applySignatures L (psbt t) pk 0 sigs = None \<longrightarrow>
      submitSignature L s tid pk sigs = (Inl (CollaboratorFailed ''submitSignature''), s)) \<and>
   (txs s tid = Some t \<and> status t = allsigned \<and>
    sendrawtransaction W (signedTransaction t) = None \<longrightarrow>
      broadcastTransaction W s tid = (Inl (CollaboratorFailed ''sendrawtransaction''), s)) \<and>
   (txs s tid = Some t \<and> status t = broadcasted \<and> txHash t = Some h \<and> h \<noteq> [] \<and>
    getrawtransaction W h = None \<longrightarrow>
      getTransactionStatus W s tid = (Inr (statusSummary t), s))"
proof -
  have g: "ip_recipientAddress ip \<noteq> [] \<and> 0 < ip_amount ip \<and> (\<forall>r. ip_feeRate ip = Some r \<longrightarrow> 0 < r) \<and>
    wallets s wid = Some w \<and> scantxoutset W 0 (w_address w) = None \<longrightarrow>
      initiateTransaction L W s wid ip = (Inl (CollaboratorFailed ''scantxoutset''), s)"
  proof
    assume a: "ip_recipientAddress ip \<noteq> [] \<and> 0 < ip_amount ip \<and>
      (\<forall>r. ip_feeRate ip = Some r \<longrightarrow> 0 < r) \<and>
      wallets s wid = Some w \<and> scantxoutset W 0 (w_address w) = None"
    then have fr: "\<not> (case ip_feeRate ip of None \<Rightarrow> False | Some r \<Rightarrow> r \<le> 0)"
      by (auto split: option.splits)
    from a have "getUTXOsBlockbook W 0 (w_address w) = Inl (CollaboratorFailed ''scantxoutset'')"
      by (simp add: getUTXOsBlockbook_def getUTXOs_def)
    with a fr show "initiateTransaction L W s wid ip = (Inl (CollaboratorFailed ''scantxoutset''), s)"
      unfolding initiateTransaction_def by simp
  qed
  have j: "txs s tid = Some t \<and> status t = pending \<and> pk \<noteq> [] \<and> wallets s (walletId t) = Some w' \<and>
    pk |\<notin>| fmdom (signatures t) \<and> applySignatures L (psbt t) pk 0 sigs = None \<longrightarrow>
      submitSignature L s tid pk sigs = (Inl (CollaboratorFailed ''submitSignature''), s)"
    unfolding submitSignature_def by simp
  have h: "txs s tid = Some t \<and> status t = allsigned \<and>
    sendrawtransaction W (signedTransaction t) = None \<longrightarrow>
      broadcastTransaction W s tid = (Inl (CollaboratorFailed ''sendrawtransaction''), s)"
    unfolding broadcastTransaction_def utils_broadcastTransaction_def by simp
  have i: "txs s tid = Some t \<and> status t = broadcasted \<and> txHash t = Some h \<and> h \<noteq> [] \<and>
    getrawtransaction W h = None \<longrightarrow>
      getTransactionStatus W s tid = (Inr (statusSummary t), s)"
    unfolding getTransactionStatus_def utils_getTransactionStatus_def truthyHash_def by simp
  from g j h i
    failed_unchanged(1) [of L W s wid ip] failed_unchanged(2) [of L s tid pk sigs]
    failed_unchanged(3) [of s tid] failed_unchanged(4) [of W s tid]
    failed_unchanged(5) [of W s tid] failed_unchanged(6) [of L W s cp]
  show ?thesis by blast
qed

theorem writes_follow_computation_witness:
  "initiateTransaction demoLibs deadWorld demoStore1 ''AB'' demoInit =
     (Inl (CollaboratorFailed ''scantxoutset''), demoStore1) \<and>
   submitSignature pickyLibs demoStore2 ''AB'' ''A'' [''sigA''] =
     (Inl (CollaboratorFailed ''submitSignature''), demoStore2) \<and>
   isl (fst (cancelTransaction demoStore4 ''AB'')) \<and>
   snd (cancelTransaction demoStore4 ''AB'') = demoStore4 \<and>
   broadcastTransaction deadWorld demoStore4 ''AB'' =
     (Inl (CollaboratorFailed ''sendrawtransaction''), demoStore4) \<and>
   getTransactionStatus deadWorld demoStore5 ''AB'' = (Inr (statusSummary demoTx5), demoStore5) \<and>
   isl (fst (createMultisigWallet rejectingLibs demoWorld emptyStore demoCreate)) \<and>
   wallets (snd (createMultisigWallet rejectingLibs demoWorld emptyStore demoCreate)) =
     wallets emptyStore"
proof -
  have c1: "initiateTransaction demoLibs deadWorld demoStore1 ''AB'' demoInit =
     (Inl (CollaboratorFailed ''scantxoutset''), demoStore1)"
    using writes_follow_computation [where L = demoLibs and W = deadWorld and s = demoStore1
        and wid = "''AB''" and ip = demoInit and w = demoWallet]
    by (simp add: demoInit_def demoStore1_wallet deadWorld_def)
  have c2: "submitSignature pickyLibs demoStore2 ''AB'' ''A'' [''sigA''] =
     (Inl (CollaboratorFailed ''submitSignature''), demoStore2)"
    using writes_follow_computation [where L = pickyLibs and s = demoStore2 and tid = "''AB''"
        and pk = "''A''" and sigs = "[''sigA'']" and t = demoTx and w' = demoWallet]
    by (simp add: demoStore2_tx demoStore2_wallet demoTx_def psbtSubmitSignature_def pickyLibs_def)
  have c3: "isl (fst (cancelTransaction demoStore4 ''AB'')) \<and>
      snd (cancelTransaction demoStore4 ''AB'') = demoStore4"
    using writes_follow_computation [where s = demoStore4 and tid = "''AB''"]
    by (simp add: demo_cancel_allsigned)
  have c4: "broadcastTransaction deadWorld demoStore4 ''AB'' =
     (Inl (CollaboratorFailed ''sendrawtransaction''), demoStore4)"
    using writes_follow_computation [where W = deadWorld and s = demoStore4 and tid = "''AB''"
        and t = demoTx4]
    by (simp add: demoStore4_tx demoTx4_facts deadWorld_def)
  have c5: "getTransactionStatus deadWorld demoStore5 ''AB'' = (Inr (statusSummary demoTx5), demoStore5)"
    using writes_follow_computation [where W = deadWorld and s = demoStore5 and tid = "''AB''"
        and t = demoTx5 and h = "''txid''"]
    by (simp add: demoStore5_tx demoTx5_facts deadWorld_def)
  have c6: "isl (fst (createMultisigWallet rejectingLibs demoWorld emptyStore demoCreate)) \<and>
     wallets (snd (createMultisigWallet rejectingLibs demoWorld emptyStore demoCreate)) =
       wallets emptyStore"
    using writes_follow_computation [where L = rejectingLibs and W = demoWorld and s = emptyStore
        and cp = demoCreate]
    by (simp add: demo_create_rejected)
  from c1 c2 c3 c4 c5 c6 show ?thesis by simp
qed

text \<open>
  C8, as stated, has every failing external call surface an error. When the node does not
  answer the confirmation lookup of a broadcasted transaction,
  \<^verbatim>\<open>getTransactionStatus\<close> succeeds.
\<close>

theorem swallowed_lookup_counterexample:
  "txs demoStore5 ''AB'' = Some demoTx5 \<and> status demoTx5 = broadcasted \<and>
   txHash demoTx5 = Some ''txid'' \<and> getrawtransaction deadWorld ''txid'' = None \<and>
   getTransactionStatus deadWorld demoStore5 ''AB'' = (Inr (statusSummary demoTx5), demoStore5)"
  by (simp add: getTransactionStatus_def utils_getTransactionStatus_def truthyHash_def
        demoStore5_tx demoTx5_facts deadWorld_def)

end
